theory Spec2Isabelle
  imports Complex_Main
begin

section \<open>Python values and exceptions\<close>

text \<open>
  The application (\<^verbatim>\<open>app.py\<close>) is a Streamlit script around the OpenAI client. The
  objects it receives from the client are read with \<^verbatim>\<open>getattr\<close>, attribute access,
  \<^verbatim>\<open>or\<close> and \<^verbatim>\<open>for\<close>, all of which are defined on every Python value, so a
  completion is modelled as a dynamically typed value: a plain object is its list of
  attributes. Strings that the program only compares, concatenates and shows are byte
  strings (\<^typ>\<open>string\<close>); the text the user enters, which the program strips, is a list
  of Unicode code points (see the section on strings).
\<close>

datatype pyval =
    PNone
  | PBool bool
  | PInt int
  | PStr string
  | PList "pyval list"
  | PObj "(string \<times> pyval) list"

text \<open>
  An exception carries the text that \<^verbatim>\<open>str(e)\<close> gives. \<open>RemoteError\<close> stands for
  whatever the OpenAI client raises; the others are raised by the interpreter.
\<close>

datatype exn =
    AttributeError string
  | TypeError string
  | ValueError string
  | OverflowError string
  | OSError string
  | RemoteError string

fun exn_message :: "exn \<Rightarrow> string" where
  "exn_message (AttributeError m) = m"
| "exn_message (TypeError m) = m"
| "exn_message (ValueError m) = m"
| "exn_message (OverflowError m) = m"
| "exn_message (OSError m) = m"
| "exn_message (RemoteError m) = m"

text \<open>Truth value of a Python value, as \<^verbatim>\<open>not\<close>, \<^verbatim>\<open>or\<close> and \<^verbatim>\<open>if\<close> test it.\<close>

fun truthy :: "pyval \<Rightarrow> bool" where
  "truthy PNone = False"
| "truthy (PBool b) = b"
| "truthy (PInt i) = (i \<noteq> 0)"
| "truthy (PStr s) = (s \<noteq> [])"
| "truthy (PList xs) = (xs \<noteq> [])"
| "truthy (PObj attrs) = True"

text \<open>\<^verbatim>\<open>a or b\<close>\<close>

definition py_or :: "pyval \<Rightarrow> pyval \<Rightarrow> pyval" where
  "py_or a b = (if truthy a then a else b)"

text \<open>\<^verbatim>\<open>getattr(v, name, default)\<close>: never raises.\<close>

fun getattr_default :: "pyval \<Rightarrow> string \<Rightarrow> pyval \<Rightarrow> pyval" where
  "getattr_default (PObj attrs) name d = (case map_of attrs name of Some x \<Rightarrow> x | None \<Rightarrow> d)"
| "getattr_default v name d = d"

text \<open>\<^verbatim>\<open>v.name\<close>: raises AttributeError when the attribute is missing.\<close>

fun getattr :: "pyval \<Rightarrow> string \<Rightarrow> exn + pyval" where
  "getattr (PObj attrs) name =
     (case map_of attrs name of
        Some x \<Rightarrow> Inr x
      | None \<Rightarrow> Inl (AttributeError (''object has no attribute '' @ name)))"
| "getattr v name = Inl (AttributeError (''object has no attribute '' @ name))"

text \<open>
  \<^verbatim>\<open>for x in v\<close>: a list yields its elements, a string its characters (each a string of
  length one), anything else is not iterable.
\<close>

fun py_iter :: "pyval \<Rightarrow> exn + pyval list" where
  "py_iter (PList xs) = Inr xs"
| "py_iter (PStr s) = Inr (map (\<lambda>c. PStr [c]) s)"
| "py_iter v = Inl (TypeError ''object is not iterable'')"

section \<open>Response extraction (Find Program handler, lines 69--87)\<close>

record citation =
  file_id :: pyval
  filename :: pyval

text \<open>The two accumulators of the extraction: \<^verbatim>\<open>output_text\<close> and \<^verbatim>\<open>citations\<close>.\<close>

type_synonym acc = "string \<times> citation list"

text \<open>
  The innermost loop, over the annotations of one text block. It reads with defaults
  only, so it cannot raise.
\<close>

fun collect_annotations :: "pyval list \<Rightarrow> citation list \<Rightarrow> citation list" where
  "collect_annotations [] citations = citations"
| "collect_annotations (ann # anns) citations =
     collect_annotations anns
       (if getattr_default ann ''type'' PNone = PStr ''file_citation''
        then citations @ [\<lparr>file_id = getattr_default ann ''file_id'' (PStr ''''),
                          filename = getattr_default ann ''filename'' (PStr '''')\<rparr>]
        else citations)"

text \<open>
  The body of the loop over \<^verbatim>\<open>item.content\<close>. A raise is \<open>Inl\<close> and keeps the
  accumulators as they are at that moment: the source mutates them in place, and its
  exception handler sees what was written before the raise.
\<close>

definition content_step :: "pyval \<Rightarrow> acc \<Rightarrow> (exn \<times> acc) + acc" where
  "content_step content a =
     (case a of (output_text, citations) \<Rightarrow>
        if getattr_default content ''type'' PNone = PStr ''output_text'' then
          (case getattr content ''text'' of
             Inl e \<Rightarrow> Inl (e, (output_text, citations))
           | Inr t \<Rightarrow>
               (case py_or t (PStr '''') of
                  PStr s \<Rightarrow>
                    (case py_iter (py_or (getattr_default content ''annotations'' PNone) (PList [])) of
                       Inl e \<Rightarrow> Inl (e, (output_text @ s, citations))
                     | Inr anns \<Rightarrow> Inr (output_text @ s, collect_annotations anns citations))
                | _ \<Rightarrow> Inl (TypeError ''can only concatenate str to str'', (output_text, citations))))
        else Inr (output_text, citations))"

fun content_loop :: "pyval list \<Rightarrow> acc \<Rightarrow> (exn \<times> acc) + acc" where
  "content_loop [] a = Inr a"
| "content_loop (content # rest) a =
     (case content_step content a of
        Inl r \<Rightarrow> Inl r
      | Inr a' \<Rightarrow> content_loop rest a')"

definition item_step :: "pyval \<Rightarrow> acc \<Rightarrow> (exn \<times> acc) + acc" where
  "item_step item a =
     (if getattr_default item ''type'' PNone = PStr ''message'' then
        (case getattr item ''content'' of
           Inl e \<Rightarrow> Inl (e, a)
         | Inr c \<Rightarrow>
             (case py_iter (py_or c (PList [])) of
                Inl e \<Rightarrow> Inl (e, a)
              | Inr contents \<Rightarrow> content_loop contents a))
      else Inr a)"

fun item_loop :: "pyval list \<Rightarrow> acc \<Rightarrow> (exn \<times> acc) + acc" where
  "item_loop [] a = Inr a"
| "item_loop (item # rest) a =
     (case item_step item a of
        Inl r \<Rightarrow> Inl r
      | Inr a' \<Rightarrow> item_loop rest a')"

text \<open>The \<^verbatim>\<open>try\<close> block: the structured traversal, from empty accumulators.\<close>

definition traverse :: "pyval \<Rightarrow> (exn \<times> acc) + acc" where
  "traverse response =
     (case getattr response ''output'' of
        Inl e \<Rightarrow> Inl (e, ([], []))
      | Inr out \<Rightarrow>
          (case py_iter (py_or out (PList [])) of
             Inl e \<Rightarrow> Inl (e, ([], []))
           | Inr items \<Rightarrow> item_loop items ([], [])))"

text \<open>
  The whole extraction, with its \<^verbatim>\<open>except Exception\<close> handler, which assigns
  \<^verbatim>\<open>output_text = str(response)\<close> and nothing else. \<^verbatim>\<open>str\<close> of the response object
  is given by its class, which is not part of the application: it is the parameter
  \<open>str_of\<close>.
\<close>

definition extract_output :: "(pyval \<Rightarrow> string) \<Rightarrow> pyval \<Rightarrow> acc" where
  "extract_output str_of response =
     (case traverse response of
        Inl (e, (output_text, citations)) \<Rightarrow> (str_of response, citations)
      | Inr a \<Rightarrow> a)"


section \<open>Well-formed completions, as the completion service documents them\<close>

text \<open>
  A structured completion is a list of output items. A message item holds content
  blocks; a text block holds its text and its annotations; a file citation names a file
  by id and filename. Items, blocks and annotations of any other kind carry only their
  type name.
\<close>

datatype annotation = FileCitation string string | OtherAnnotation string

datatype content_block = OutputText string "annotation list" | OtherContent string

datatype output_item = Message "content_block list" | OtherItem string

fun encode_annotation :: "annotation \<Rightarrow> pyval" where
  "encode_annotation (FileCitation fid fname) =
     PObj [(''type'', PStr ''file_citation''), (''file_id'', PStr fid), (''filename'', PStr fname)]"
| "encode_annotation (OtherAnnotation t) = PObj [(''type'', PStr t)]"

fun encode_content :: "content_block \<Rightarrow> pyval" where
  "encode_content (OutputText s anns) =
     PObj [(''type'', PStr ''output_text''), (''text'', PStr s),
           (''annotations'', PList (map encode_annotation anns))]"
| "encode_content (OtherContent t) = PObj [(''type'', PStr t)]"

fun encode_item :: "output_item \<Rightarrow> pyval" where
  "encode_item (Message cs) =
     PObj [(''type'', PStr ''message''), (''content'', PList (map encode_content cs))]"
| "encode_item (OtherItem t) = PObj [(''type'', PStr t)]"

definition encode_completion :: "output_item list \<Rightarrow> pyval" where
  "encode_completion items = PObj [(''output'', PList (map encode_item items))]"

text \<open>The other kinds are other: their type names are not the three the extraction looks for.\<close>

fun wf_annotation :: "annotation \<Rightarrow> bool" where
  "wf_annotation (FileCitation fid fname) = True"
| "wf_annotation (OtherAnnotation t) = (t \<noteq> ''file_citation'')"

fun wf_content :: "content_block \<Rightarrow> bool" where
  "wf_content (OutputText s anns) = list_all wf_annotation anns"
| "wf_content (OtherContent t) = (t \<noteq> ''output_text'')"

fun wf_item :: "output_item \<Rightarrow> bool" where
  "wf_item (Message cs) = list_all wf_content cs"
| "wf_item (OtherItem t) = (t \<noteq> ''message'')"

definition wf_completion :: "output_item list \<Rightarrow> bool" where
  "wf_completion items = list_all wf_item items"

text \<open>
  What the specification says the extraction yields: the text fragments of the text
  blocks of the message items, concatenated in order, and one citation record per file
  citation of those blocks.
\<close>

fun spec_citations_of_annotation :: "annotation \<Rightarrow> citation list" where
  "spec_citations_of_annotation (FileCitation fid fname) =
     [\<lparr>file_id = PStr fid, filename = PStr fname\<rparr>]"
| "spec_citations_of_annotation (OtherAnnotation t) = []"

fun spec_text_of_content :: "content_block \<Rightarrow> string" where
  "spec_text_of_content (OutputText s anns) = s"
| "spec_text_of_content (OtherContent t) = []"

fun spec_citations_of_content :: "content_block \<Rightarrow> citation list" where
  "spec_citations_of_content (OutputText s anns) = concat (map spec_citations_of_annotation anns)"
| "spec_citations_of_content (OtherContent t) = []"

fun spec_text_of_item :: "output_item \<Rightarrow> string" where
  "spec_text_of_item (Message cs) = concat (map spec_text_of_content cs)"
| "spec_text_of_item (OtherItem t) = []"

fun spec_citations_of_item :: "output_item \<Rightarrow> citation list" where
  "spec_citations_of_item (Message cs) = concat (map spec_citations_of_content cs)"
| "spec_citations_of_item (OtherItem t) = []"

definition spec_text :: "output_item list \<Rightarrow> string" where
  "spec_text items = concat (map spec_text_of_item items)"

definition spec_citations :: "output_item list \<Rightarrow> citation list" where
  "spec_citations items = concat (map spec_citations_of_item items)"

section \<open>Session state, the remote service and the user interface\<close>

text \<open>The three keys of \<^verbatim>\<open>st.session_state\<close> (lines 8--13).\<close>

record session_state =
  OPENAI_API_KEY :: string
  OPENAI_MODEL :: string
  ACTIVE_VECTOR_STORE_ID :: "string option"

text \<open>
  Line 16: the client object exists exactly when the key is a non-empty string. It is
  \<open>None\<close> otherwise, and falsy.
\<close>

definition client :: "session_state \<Rightarrow> bool" where
  "client s = (OPENAI_API_KEY s \<noteq> [])"

definition MODEL_NAME :: "session_state \<Rightarrow> string" where
  "MODEL_NAME s = OPENAI_MODEL s"

definition get_active_vector_store_id :: "session_state \<Rightarrow> string option" where
  "get_active_vector_store_id s = ACTIVE_VECTOR_STORE_ID s"

text \<open>Truth value of an optional string: \<open>None\<close> and the empty string are falsy.\<close>

fun truthy_opt :: "string option \<Rightarrow> bool" where
  "truthy_opt None = False"
| "truthy_opt (Some s) = (s \<noteq> [])"

text \<open>The methods of the OpenAI client that the handlers below call, with their arguments.\<close>

datatype call =
    ResponsesCreate string "nat list" "string option"
  | VectorStoresCreate string
  | VectorStoresList
  | VectorStoresDelete string
  | VectorStoreFilesList "string option"
  | VectorStoreFilesCreate "string option" string
  | VectorStoreFilesDelete string string
  | FilesCreate string string
  | FilesDelete string

text \<open>
  An entry of a file listing and of a store listing. A field is \<open>None\<close> when the object
  has no such attribute.
\<close>

record file_ref =
  ref_file_id :: "string option"
  ref_id :: "string option"
  ref_status :: "string option"

record vector_store =
  vs_id :: "string option"
  vs_name :: "string option"

text \<open>
  The remote service is outside the program. It is a parameter: for each method, what
  the call returns or raises, as a function of all calls made so far (the last one being
  the call itself, with its arguments), and how long the call takes, in seconds. Nothing
  is assumed about it, so a property proved for every service holds whatever the remote
  side answers, fails on or delays.
\<close>

record service =
  latency :: "call list \<Rightarrow> real"
  responses_create :: "call list \<Rightarrow> exn + pyval"
  vector_stores_create :: "call list \<Rightarrow> exn + string"
  vector_stores_list :: "call list \<Rightarrow> exn + vector_store list"
  vector_stores_delete :: "call list \<Rightarrow> exn + unit"
  vector_stores_files_list :: "call list \<Rightarrow> exn + file_ref list"
  vector_stores_files_create :: "call list \<Rightarrow> exn + unit"
  vector_stores_files_delete :: "call list \<Rightarrow> exn + unit"
  files_create :: "call list \<Rightarrow> exn + string"
  files_delete :: "call list \<Rightarrow> exn + unit"

text \<open>
  What the page shows: \<^verbatim>\<open>st.warning\<close>, \<^verbatim>\<open>st.error\<close> and so on (the sidebar's
  \<^verbatim>\<open>kb.\<close> methods are the same elements in another column), and \<^verbatim>\<open>st.rerun()\<close>,
  which ends the run of the script: Streamlit raises a control exception that is not an
  \<^verbatim>\<open>Exception\<close>, so no handler of the application catches it.
\<close>

datatype ui_event =
    Warning string
  | Error string
  | Success string
  | Info string
  | Code string
  | Caption string
  | Write string
  | Rerun

text \<open>
  The state a handler runs in: the session, the calls made to the remote service so far,
  what was shown so far, and the clock that \<^verbatim>\<open>time.time()\<close> reads, in seconds.
\<close>

record world =
  session :: session_state
  calls :: "call list"
  ui :: "ui_event list"
  clock :: real

definition emit :: "ui_event \<Rightarrow> world \<Rightarrow> world" where
  "emit e w = w\<lparr>ui := ui w @ [e]\<rparr>"

text \<open>Making a call records it and takes the time the service takes for it.\<close>

definition perform :: "service \<Rightarrow> call \<Rightarrow> world \<Rightarrow> world" where
  "perform svc c w = w\<lparr>calls := calls w @ [c], clock := clock w + latency svc (calls w @ [c])\<rparr>"

section \<open>Strings\<close>

text \<open>
  \<^verbatim>\<open>str.strip()\<close> removes leading and trailing whitespace from a Python \<^verbatim>\<open>str\<close>, which
  is a sequence of Unicode code points. The text of the input box is therefore a list of
  code points, and the whitespace characters are the 29 code points for which
  \<^verbatim>\<open>str.isspace\<close> holds: U+0009 to U+000D, U+001C to U+0020, U+0085, U+00A0, U+1680,
  U+2000 to U+200A, U+2028, U+2029, U+202F, U+205F and U+3000.
\<close>

type_synonym unicode = "nat list"

definition isspace :: "nat \<Rightarrow> bool" where
  "isspace c =
     ((0x9 \<le> c \<and> c \<le> 0xD) \<or> (0x1C \<le> c \<and> c \<le> 0x20) \<or> c = 0x85 \<or> c = 0xA0 \<or>
      c = 0x1680 \<or> (0x2000 \<le> c \<and> c \<le> 0x200A) \<or> c = 0x2028 \<or> c = 0x2029 \<or>
      c = 0x202F \<or> c = 0x205F \<or> c = 0x3000)"

definition strip :: "unicode \<Rightarrow> unicode" where
  "strip s = rev (dropWhile isspace (rev (dropWhile isspace s)))"

text \<open>A literal of ASCII characters as code points.\<close>

definition ascii :: "string \<Rightarrow> unicode" where
  "ascii s = map of_char s"

text \<open>\<^verbatim>\<open>sub in s\<close>\<close>

fun startswith :: "string \<Rightarrow> string \<Rightarrow> bool" where
  "startswith s [] = True"
| "startswith [] (c # sub) = False"
| "startswith (d # s) (c # sub) = (d = c \<and> startswith s sub)"

fun contains :: "string \<Rightarrow> string \<Rightarrow> bool" where
  "contains [] sub = (sub = [])"
| "contains (d # s) sub = (startswith (d # s) sub \<or> contains s sub)"

text \<open>Decimal digits of a number, for the f-strings.\<close>

definition digit :: "nat \<Rightarrow> char" where
  "digit d = ''0123456789'' ! d"

fun str_nat :: "nat \<Rightarrow> string" where
  "str_nat n = (if n < 10 then [digit n] else str_nat (n div 10) @ [digit (n mod 10)])"

text \<open>A value inside an f-string: a string as it is, anything else through \<^verbatim>\<open>str\<close>.\<close>

fun py_format :: "(pyval \<Rightarrow> string) \<Rightarrow> pyval \<Rightarrow> string" where
  "py_format str_of (PStr s) = s"
| "py_format str_of v = str_of v"


section \<open>Find Program (lines 36--102)\<close>

text \<open>The fixed instruction of the prompt (lines 52--55); the apostrophe is U+2019.\<close>

definition instruction :: unicode where
  "instruction =
     ascii ''You'' @ [0x2019] @
     ascii (''re assigned a task to determine whether a bug bounty program exists for the given input. '' @
            ''Use the file_search tool on the provided vector store to verify. '' @
            ''Respond strictly in a **single JSON object only**, with no explanations or extra text. '' @
            ''Fields required: 'Found' (Yes/No), 'Source', 'Rewards' (Yes/No), 'Program Url'. '' @
            ''Input: '')"

text \<open>Lines 95--98: one line per citation.\<close>

fun write_citations :: "(pyval \<Rightarrow> string) \<Rightarrow> citation list \<Rightarrow> world \<Rightarrow> world" where
  "write_citations str_of [] w = w"
| "write_citations str_of (c # cs) w =
     (let fn = py_or (filename c) (PStr ''(unknown file)'');
          fid = py_or (file_id c) (PStr ''(no id)'')
      in write_citations str_of cs
           (emit (Write (''- '' @ py_format str_of fn @ '' ['' @ py_format str_of fid @ '']'')) w))"

text \<open>Lines 89--100: the result panel.\<close>

definition show_result :: "(pyval \<Rightarrow> string) \<Rightarrow> acc \<Rightarrow> world \<Rightarrow> world" where
  "show_result str_of a w =
     (case a of (output_text, citations) \<Rightarrow>
        if output_text \<noteq> [] then
          (let w1 = emit (Code output_text) (emit (Success ''Result'') w)
           in if citations \<noteq> [] then write_citations str_of citations (emit (Caption ''Citations:'') w1)
              else w1)
        else emit (Info ''No output returned.'') w)"

definition find_program :: "(pyval \<Rightarrow> string) \<Rightarrow> service \<Rightarrow> unicode \<Rightarrow> world \<Rightarrow> world" where
  "find_program str_of svc user_text w =
     (if strip user_text = [] then
        emit (Warning ''Please provide some input (domain, email, org name, etc.).'') w
      else if \<not> client (session w) then
        emit (Error ''OpenAI API key is not set. Please set it in the sidebar under Settings.'') w
      else if \<not> truthy_opt (get_active_vector_store_id (session w)) then
        emit (Error ''No active vector store set. Create one or set an ID in the 'Manage Knowledge Base' section.'') w
      else
        (let prompt = instruction @ strip user_text;
             w1 = perform svc (ResponsesCreate (MODEL_NAME (session w)) prompt
                                 (get_active_vector_store_id (session w))) w
         in case responses_create svc (calls w1) of
              Inl e \<Rightarrow> emit (Error (''An error occurred: '' @ exn_message e)) w1
            | Inr response \<Rightarrow> show_result str_of (extract_output str_of response) w1))"

section \<open>Create New Vector Store (lines 125--134)\<close>

definition create_vector_store :: "service \<Rightarrow> string \<Rightarrow> world \<Rightarrow> world" where
  "create_vector_store svc name w =
     (if OPENAI_API_KEY (session w) = [] then
        emit (Error ''Set your OpenAI API key in Settings first.'') w
      else
        (let w1 = perform svc (VectorStoresCreate name) w
         in case vector_stores_create svc (calls w1) of
              Inl e \<Rightarrow> emit (Error (''Failed to create vector store: '' @ exn_message e)) w1
            | Inr created_id \<Rightarrow>
                emit (Success (''Created new vector store: '' @ created_id))
                  (w1\<lparr>session := (session w1)\<lparr>ACTIVE_VECTOR_STORE_ID := Some created_id\<rparr>\<rparr>)))"

section \<open>Listing the vector stores (lines 142--159)\<close>

text \<open>
  The result is \<open>None\<close> when the function does not return because \<^verbatim>\<open>st.rerun()\<close> ended
  the run of the script.
\<close>

definition list_vector_stores :: "service \<Rightarrow> world \<Rightarrow> vector_store list option \<times> world" where
  "list_vector_stores svc w =
     (if OPENAI_API_KEY (session w) = [] \<or> \<not> client (session w) then
        (Some [], emit (Info ''Set your OpenAI API key in Settings to load stores.'') w)
      else
        (let w1 = perform svc VectorStoresList w
         in case vector_stores_list svc (calls w1) of
              Inr data \<Rightarrow> (Some data, w1)
            | Inl e \<Rightarrow>
                if contains (exn_message e) ''Vector store not found''
                then (None, emit Rerun (emit (Info ''Refreshing stores...'') w1))
                else (Some [], emit (Error (''Failed to list vector stores: '' @ exn_message e)) w1)))"

text \<open>
  Line 159 over successive runs of the script. A run that \<^verbatim>\<open>st.rerun()\<close> ended is
  followed by another run from the top, in which no button is pressed, so the next
  thing to reach the service is \<open>list_vector_stores\<close> again. The first argument bounds
  the number of runs looked at; \<open>None\<close> says that this many runs all ended in a rerun.
\<close>

fun listing_runs :: "nat \<Rightarrow> service \<Rightarrow> world \<Rightarrow> (vector_store list \<times> world) option" where
  "listing_runs 0 svc w = None"
| "listing_runs (Suc n) svc w =
     (case list_vector_stores svc w of
        (Some stores, w') \<Rightarrow> Some (stores, w')
      | (None, w') \<Rightarrow> listing_runs n svc w')"

section \<open>Delete Store (lines 174--210)\<close>

text \<open>Line 187: \<^verbatim>\<open>getattr(ref, "file_id", None) or getattr(ref, "id", None)\<close>\<close>

definition fid_of :: "file_ref \<Rightarrow> string option" where
  "fid_of ref = (if truthy_opt (ref_file_id ref) then ref_file_id ref else ref_id ref)"

text \<open>
  Lines 186--200, the loop over the listed files, with the counter \<^verbatim>\<open>deleted_files\<close>.
  The detach is in a \<^verbatim>\<open>try\<close> whose handler is \<^verbatim>\<open>pass\<close>; the handler of the file
  deletion shows a warning.
\<close>

fun delete_files :: "service \<Rightarrow> string \<Rightarrow> file_ref list \<Rightarrow> nat \<Rightarrow> world \<Rightarrow> nat \<times> world" where
  "delete_files svc store_id [] deleted_files w = (deleted_files, w)"
| "delete_files svc store_id (ref # refs) deleted_files w =
     (case fid_of ref of
        None \<Rightarrow> delete_files svc store_id refs deleted_files w
      | Some fid \<Rightarrow>
          if fid = [] then delete_files svc store_id refs deleted_files w
          else
            (let w1 = perform svc (VectorStoreFilesDelete store_id fid) w;
                 w2 = (case vector_stores_files_delete svc (calls w1) of
                         Inl e \<Rightarrow> w1
                       | Inr u \<Rightarrow> w1);
                 w3 = perform svc (FilesDelete fid) w2
             in case files_delete svc (calls w3) of
                  Inl e \<Rightarrow>
                    delete_files svc store_id refs deleted_files
                      (emit (Warning (''Failed to delete file '' @ fid @ '': '' @ exn_message e)) w3)
                | Inr u \<Rightarrow> delete_files svc store_id refs (deleted_files + 1) w3))"

definition delete_store :: "service \<Rightarrow> string \<Rightarrow> world \<Rightarrow> world" where
  "delete_store svc store_id w =
     (if \<not> client (session w) then
        emit (Error ''Set your OpenAI API key in Settings first.'') w
      else
        (let w1 = perform svc (VectorStoreFilesList (Some store_id)) w;
             refs = (case vector_stores_files_list svc (calls w1) of
                       Inl e \<Rightarrow> []
                     | Inr data \<Rightarrow> data);
             (deleted_files, w2) = delete_files svc store_id refs 0 w1;
             w3 = perform svc (VectorStoresDelete store_id) w2
         in case vector_stores_delete svc (calls w3) of
              Inl e \<Rightarrow>
                emit (Error (''Failed to delete vector store '' @ store_id @ '': '' @ exn_message e)) w3
            | Inr u \<Rightarrow>
                (let w4 = (if get_active_vector_store_id (session w3) = Some store_id
                           then w3\<lparr>session := (session w3)\<lparr>ACTIVE_VECTOR_STORE_ID := None\<rparr>\<rparr>
                           else w3)
                 in emit Rerun
                      (emit (Success (''Deleted vector store: '' @ store_id @ '' (and '' @
                                      str_nat deleted_files @ '' related files)'')) w4))))"

section \<open>Polling the indexing status (lines 256--272)\<close>

text \<open>
  The machine the script runs on is outside the program, like the service. It is a
  parameter: how long the interpreter takes for one pass of the loop besides the call
  and the sleep (as a function of the calls made so far and of the clock reading at the
  start of the pass), and the longest sleep the operating system accepts.
\<close>

record machine =
  pass_time :: "call list \<Rightarrow> real \<Rightarrow> real"
  sleep_max :: real

definition begin_pass :: "machine \<Rightarrow> world \<Rightarrow> world" where
  "begin_pass m w = w\<lparr>clock := clock w + pass_time m (calls w) (clock w)\<rparr>"

text \<open>
  \<^verbatim>\<open>time.sleep\<close> converts the length to a count of nanoseconds in 64 bits and raises
  OverflowError when it does not fit; it raises ValueError on a negative length, and
  OSError when the operating system refuses the length (a deadline beyond what its clock
  can hold); otherwise that time passes. Lengths are real numbers here: the float that is
  not a number has no counterpart.
\<close>

definition time_max :: real where
  "time_max = 9223372036854775807 / 1000000000"

definition sleep :: "machine \<Rightarrow> real \<Rightarrow> world \<Rightarrow> exn + world" where
  "sleep m secs w =
     (if secs < - time_max \<or> time_max < secs
        then Inl (OverflowError ''timestamp out of range for platform time_t'')
      else if secs < 0 then Inl (ValueError ''sleep length must be non-negative'')
      else if sleep_max m < secs then Inl (OSError ''[Errno 22] Invalid argument'')
      else Inr (w\<lparr>clock := clock w + secs\<rparr>))"

text \<open>
  Lines 262--268, the loop over the listing: \<open>Some\<close> is a \<^verbatim>\<open>return\<close> from inside the
  loop, \<open>None\<close> is the loop running to its end. The entry is read with
  \<^verbatim>\<open>getattr(f, "id", "")\<close> and \<^verbatim>\<open>getattr(f, "status", "")\<close>.
\<close>

definition entry_id :: "file_ref \<Rightarrow> string" where
  "entry_id f = (case ref_id f of None \<Rightarrow> [] | Some i \<Rightarrow> i)"

definition entry_status :: "file_ref \<Rightarrow> string" where
  "entry_status f = (case ref_status f of None \<Rightarrow> [] | Some s \<Rightarrow> s)"

fun scan_listing :: "string \<Rightarrow> file_ref list \<Rightarrow> string option" where
  "scan_listing fid [] = None"
| "scan_listing fid (f # data) =
     (if entry_id f = fid then
        (let status = entry_status f
         in if status = ''completed'' \<or> status = ''finished'' then Some ''completed''
            else if status = ''failed'' \<or> status = ''error'' then Some status
            else scan_listing fid data)
      else scan_listing fid data)"

text \<open>
  One pass through the \<^verbatim>\<open>try\<close> block up to its \<^verbatim>\<open>time.sleep\<close>. Without a client,
  \<^verbatim>\<open>client.vector_stores\<close> raises AttributeError before anything is called.
\<close>

datatype poll_outcome = Returned string | Not_terminal | Raised exn

definition poll_once :: "service \<Rightarrow> string \<Rightarrow> world \<Rightarrow> poll_outcome \<times> world" where
  "poll_once svc fid w =
     (if \<not> client (session w) then
        (Raised (AttributeError ''object has no attribute vector_stores''), w)
      else
        (let w1 = perform svc (VectorStoreFilesList (get_active_vector_store_id (session w))) w
         in case vector_stores_files_list svc (calls w1) of
              Inl e \<Rightarrow> (Raised e, w1)
            | Inr data \<Rightarrow>
                (case scan_listing fid data of
                   Some status \<Rightarrow> (Returned status, w1)
                 | None \<Rightarrow> (Not_terminal, w1))))"

text \<open>
  The sleep that follows: line 269 is inside the \<^verbatim>\<open>try\<close>, so a raise of that sleep is
  caught by line 270 and followed by the sleep of line 271, which is outside any handler.
\<close>

fun sleep_after :: "machine \<Rightarrow> poll_outcome \<Rightarrow> real \<Rightarrow> world \<Rightarrow> exn + world" where
  "sleep_after m (Raised e) poll_interval w = sleep m poll_interval w"
| "sleep_after m outcome poll_interval w =
     (case sleep m poll_interval w of
        Inl e \<Rightarrow> sleep m poll_interval w
      | Inr w' \<Rightarrow> Inr w')"

text \<open>
  The \<^verbatim>\<open>while\<close> loop. Line 258 reads the clock; a pass that is entered takes the
  interpreter's time, the time of the call and the sleep. Whether the loop ends depends
  on the clock, so the loop is a partial function: \<open>None\<close> is the loop that runs
  forever, \<open>Some (Inl e, w)\<close> a raise out of the function, \<open>Some (Inr status, w)\<close> a
  \<^verbatim>\<open>return\<close>.
\<close>

partial_function (option) poll_loop ::
  "machine \<Rightarrow> service \<Rightarrow> string \<Rightarrow> real \<Rightarrow> real \<Rightarrow> real \<Rightarrow> world
     \<Rightarrow> ((exn + string) \<times> world) option" where
  "poll_loop m svc fid timeout_sec poll_interval start w =
     (if clock w - start < timeout_sec then
        (case poll_once svc fid (begin_pass m w) of
           (outcome, w1) \<Rightarrow>
             (case outcome of
                Returned status \<Rightarrow> Some (Inr status, w1)
              | Not_terminal \<Rightarrow>
                  (case sleep_after m outcome poll_interval w1 of
                     Inl e \<Rightarrow> Some (Inl e, w1)
                   | Inr w2 \<Rightarrow> poll_loop m svc fid timeout_sec poll_interval start w2)
              | Raised e' \<Rightarrow>
                  (case sleep_after m outcome poll_interval w1 of
                     Inl e \<Rightarrow> Some (Inl e, w1)
                   | Inr w2 \<Rightarrow> poll_loop m svc fid timeout_sec poll_interval start w2)))
      else Some (Inr ''timeout'', w))"

declare poll_loop.simps [code]

definition wait_until_file_indexed ::
  "machine \<Rightarrow> service \<Rightarrow> string \<Rightarrow> real \<Rightarrow> real \<Rightarrow> world
     \<Rightarrow> ((exn + string) \<times> world) option" where
  "wait_until_file_indexed m svc fid timeout_sec poll_interval w =
     poll_loop m svc fid timeout_sec poll_interval (clock w) w"

text \<open>The defaults of the two keyword parameters (line 256).\<close>

definition default_timeout_sec :: real where
  "default_timeout_sec = 60"

definition default_poll_interval :: real where
  "default_poll_interval = 1.0"

section \<open>Upload (lines 282--312)\<close>

text \<open>
  Lines 292--309, the loop over the chosen files (name and content), with the list
  \<^verbatim>\<open>results\<close>. Line 306 waits with \<^verbatim>\<open>timeout_sec=90\<close> and the default interval.
\<close>

fun upload_files ::
  "machine \<Rightarrow> service \<Rightarrow> (string \<times> string) list \<Rightarrow> (string \<times> string \<times> string) list \<Rightarrow> world
     \<Rightarrow> ((string \<times> string \<times> string) list \<times> world) option" where
  "upload_files m svc [] results w = Some (results, w)"
| "upload_files m svc (uf # ufs) results w =
     (let w1 = perform svc (FilesCreate (fst uf) (snd uf)) w
      in case files_create svc (calls w1) of
           Inl e \<Rightarrow>
             upload_files m svc ufs results
               (emit (Error (''Failed to upload '' @ fst uf @ '': '' @ exn_message e)) w1)
         | Inr created_id \<Rightarrow>
             (let w2 = perform svc (VectorStoreFilesCreate
                                      (get_active_vector_store_id (session w1)) created_id) w1
              in case vector_stores_files_create svc (calls w2) of
                   Inl e \<Rightarrow>
                     upload_files m svc ufs results
                       (emit (Error (''Failed to upload '' @ fst uf @ '': '' @ exn_message e)) w2)
                 | Inr u \<Rightarrow>
                     (case wait_until_file_indexed m svc created_id 90 default_poll_interval w2 of
                        None \<Rightarrow> None
                      | Some (Inl e, w3) \<Rightarrow>
                          upload_files m svc ufs results
                            (emit (Error (''Failed to upload '' @ fst uf @ '': '' @ exn_message e)) w3)
                      | Some (Inr status, w3) \<Rightarrow>
                          upload_files m svc ufs (results @ [(fst uf, created_id, status)]) w3)))"

fun write_results :: "(string \<times> string \<times> string) list \<Rightarrow> world \<Rightarrow> world" where
  "write_results [] w = w"
| "write_results ((name, fid, status) # rest) w =
     write_results rest (emit (Write (''- '' @ name @ '' ['' @ fid @ ''] status: '' @ status)) w)"

definition upload ::
  "machine \<Rightarrow> service \<Rightarrow> (string \<times> string) list \<Rightarrow> world \<Rightarrow> world option" where
  "upload m svc uploaded_files w =
     (if uploaded_files = [] then
        Some (emit (Warning ''Please choose one or more files to upload.'') w)
      else if \<not> truthy_opt (get_active_vector_store_id (session w)) then
        Some (emit (Error ''No active vector store set. Create one or set an ID above.'') w)
      else if \<not> client (session w) then
        Some (emit (Error ''Set your OpenAI API key in Settings first.'') w)
      else
        (case upload_files m svc uploaded_files [] w of
           None \<Rightarrow> None
         | Some (results, w') \<Rightarrow> Some (write_results results (emit (Success ''Upload finished:'') w'))))"

section \<open>Notions used in the statements\<close>

text \<open>The id under which a listed file is detached and deleted.\<close>

definition fid_str :: "file_ref \<Rightarrow> string" where
  "fid_str ref = (case fid_of ref of None \<Rightarrow> [] | Some fid \<Rightarrow> fid)"

text \<open>
  The entry of a listing that decides a poll: the one for the file that is waited for,
  in one of the four states at which the wait ends.
\<close>

definition is_terminal_entry :: "string \<Rightarrow> file_ref \<Rightarrow> bool" where
  "is_terminal_entry fid f =
     (entry_id f = fid \<and> entry_status f \<in> set [''completed'', ''finished'', ''failed'', ''error''])"

text \<open>
  The listing call of one pass of the polling loop: the state after it, and what the call
  returned or raised.
\<close>

definition after_listing :: "machine \<Rightarrow> service \<Rightarrow> world \<Rightarrow> world" where
  "after_listing m svc w =
     perform svc (VectorStoreFilesList (get_active_vector_store_id (session w))) (begin_pass m w)"

definition listing_result :: "machine \<Rightarrow> service \<Rightarrow> world \<Rightarrow> exn + file_ref list" where
  "listing_result m svc w = vector_stores_files_list svc (calls (after_listing m svc w))"

text \<open>The lengths that \<^verbatim>\<open>time.sleep\<close> accepts on a machine.\<close>

definition sleep_accepts :: "machine \<Rightarrow> real \<Rightarrow> bool" where
  "sleep_accepts m secs = (0 \<le> secs \<and> secs \<le> time_max \<and> secs \<le> sleep_max m)"

section \<open>Concrete inputs\<close>

text \<open>Inputs at which the theorems below are evaluated.\<close>

definition sample_str :: "pyval \<Rightarrow> string" where
  "sample_str v = ''<Response>''"

text \<open>
  A completion whose first message is well formed and carries a citation, and whose
  second message has an integer where its content list should be.
\<close>

definition partial_response :: pyval where
  "partial_response =
     PObj [(''output'', PList
       [encode_item (Message [OutputText ''X'' [FileCitation ''f1'' ''a.pdf'']]),
        PObj [(''type'', PStr ''message''), (''content'', PInt 5)]])]"

text \<open>The session as lines 8--13 initialise it: no key, no active vector store.\<close>

definition fresh_world :: world where
  "fresh_world =
     \<lparr>session = \<lparr>OPENAI_API_KEY = [], OPENAI_MODEL = ''gpt-4.1-mini'', ACTIVE_VECTOR_STORE_ID = None\<rparr>,
      calls = [], ui = [], clock = 0\<rparr>"

text \<open>A key entered, no active vector store.\<close>

definition keyed_world :: world where
  "keyed_world =
     \<lparr>session = \<lparr>OPENAI_API_KEY = ''sk-test'', OPENAI_MODEL = ''gpt-4.1-mini'', ACTIVE_VECTOR_STORE_ID = None\<rparr>,
      calls = [], ui = [], clock = 0\<rparr>"

text \<open>No key, an active vector store.\<close>

definition no_key_world :: world where
  "no_key_world =
     \<lparr>session = \<lparr>OPENAI_API_KEY = [], OPENAI_MODEL = ''gpt-4.1-mini'', ACTIVE_VECTOR_STORE_ID = Some ''vs_1''\<rparr>,
      calls = [], ui = [], clock = 0\<rparr>"

text \<open>A key entered and an active vector store.\<close>

definition ready_world :: world where
  "ready_world =
     \<lparr>session = \<lparr>OPENAI_API_KEY = ''sk-test'', OPENAI_MODEL = ''gpt-4.1-mini'', ACTIVE_VECTOR_STORE_ID = Some ''vs_1''\<rparr>,
      calls = [], ui = [], clock = 0\<rparr>"

text \<open>A service that cannot be reached: every call raises at once.\<close>

definition null_service :: service where
  "null_service =
     \<lparr>latency = (\<lambda>h. 0),
      responses_create = (\<lambda>h. Inl (RemoteError ''Connection error.'')),
      vector_stores_create = (\<lambda>h. Inl (RemoteError ''Connection error.'')),
      vector_stores_list = (\<lambda>h. Inl (RemoteError ''Connection error.'')),
      vector_stores_delete = (\<lambda>h. Inl (RemoteError ''Connection error.'')),
      vector_stores_files_list = (\<lambda>h. Inl (RemoteError ''Connection error.'')),
      vector_stores_files_create = (\<lambda>h. Inl (RemoteError ''Connection error.'')),
      vector_stores_files_delete = (\<lambda>h. Inl (RemoteError ''Connection error.'')),
      files_create = (\<lambda>h. Inl (RemoteError ''Connection error.'')),
      files_delete = (\<lambda>h. Inl (RemoteError ''Connection error.''))\<rparr>"

text \<open>
  A store with two files. Every detach fails, the deletion of the first file fails,
  everything else succeeds.
\<close>

definition two_file_service :: service where
  "two_file_service =
     \<lparr>latency = (\<lambda>h. 0),
      responses_create = (\<lambda>h. Inl (RemoteError ''Connection error.'')),
      vector_stores_create = (\<lambda>h. Inl (RemoteError ''Connection error.'')),
      vector_stores_list = (\<lambda>h. Inl (RemoteError ''Connection error.'')),
      vector_stores_delete = (\<lambda>h. Inr ()),
      vector_stores_files_list =
        (\<lambda>h. Inr [\<lparr>ref_file_id = None, ref_id = Some ''file_a'', ref_status = Some ''completed''\<rparr>,
                   \<lparr>ref_file_id = None, ref_id = Some ''file_b'', ref_status = Some ''completed''\<rparr>]),
      vector_stores_files_create = (\<lambda>h. Inl (RemoteError ''Connection error.'')),
      vector_stores_files_delete = (\<lambda>h. Inl (RemoteError ''Connection error.'')),
      files_create = (\<lambda>h. Inl (RemoteError ''Connection error.'')),
      files_delete =
        (\<lambda>h. if h \<noteq> [] \<and> last h = FilesDelete ''file_a''
             then Inl (RemoteError ''No such File object: file_a'')
             else Inr ())\<rparr>"

text \<open>
  A service whose store listing answers the first two calls with the 404 of a store
  that was just deleted, and the third with an empty listing.
\<close>

definition flaky_service :: service where
  "flaky_service =
     \<lparr>latency = (\<lambda>h. 0),
      responses_create = (\<lambda>h. Inl (RemoteError ''Connection error.'')),
      vector_stores_create = (\<lambda>h. Inl (RemoteError ''Connection error.'')),
      vector_stores_list =
        (\<lambda>h. if length h \<le> 2 then Inl (RemoteError ''Error code: 404 - Vector store not found'')
             else Inr []),
      vector_stores_delete = (\<lambda>h. Inl (RemoteError ''Connection error.'')),
      vector_stores_files_list = (\<lambda>h. Inl (RemoteError ''Connection error.'')),
      vector_stores_files_create = (\<lambda>h. Inl (RemoteError ''Connection error.'')),
      vector_stores_files_delete = (\<lambda>h. Inl (RemoteError ''Connection error.'')),
      files_create = (\<lambda>h. Inl (RemoteError ''Connection error.'')),
      files_delete = (\<lambda>h. Inl (RemoteError ''Connection error.''))\<rparr>"

text \<open>
  A service that lists the file \<open>file_a\<close> as in progress on the first two calls and as
  finished from the third call on; every call takes a quarter of a second.
\<close>

definition indexing_service :: service where
  "indexing_service =
     \<lparr>latency = (\<lambda>h. 1 / 4),
      responses_create = (\<lambda>h. Inl (RemoteError ''Connection error.'')),
      vector_stores_create = (\<lambda>h. Inl (RemoteError ''Connection error.'')),
      vector_stores_list = (\<lambda>h. Inl (RemoteError ''Connection error.'')),
      vector_stores_delete = (\<lambda>h. Inl (RemoteError ''Connection error.'')),
      vector_stores_files_list =
        (\<lambda>h. if length h \<le> 2
             then Inr [\<lparr>ref_file_id = None, ref_id = Some ''file_a'', ref_status = Some ''in_progress''\<rparr>]
             else Inr [\<lparr>ref_file_id = None, ref_id = Some ''file_a'', ref_status = Some ''finished''\<rparr>]),
      vector_stores_files_create = (\<lambda>h. Inl (RemoteError ''Connection error.'')),
      vector_stores_files_delete = (\<lambda>h. Inl (RemoteError ''Connection error.'')),
      files_create = (\<lambda>h. Inl (RemoteError ''Connection error.'')),
      files_delete = (\<lambda>h. Inl (RemoteError ''Connection error.''))\<rparr>"

text \<open>A service that lists the file \<open>file_a\<close> as failed.\<close>

definition failing_service :: service where
  "failing_service =
     \<lparr>latency = (\<lambda>h. 1 / 4),
      responses_create = (\<lambda>h. Inl (RemoteError ''Connection error.'')),
      vector_stores_create = (\<lambda>h. Inl (RemoteError ''Connection error.'')),
      vector_stores_list = (\<lambda>h. Inl (RemoteError ''Connection error.'')),
      vector_stores_delete = (\<lambda>h. Inl (RemoteError ''Connection error.'')),
      vector_stores_files_list =
        (\<lambda>h. Inr [\<lparr>ref_file_id = None, ref_id = Some ''file_a'', ref_status = Some ''failed''\<rparr>]),
      vector_stores_files_create = (\<lambda>h. Inl (RemoteError ''Connection error.'')),
      vector_stores_files_delete = (\<lambda>h. Inl (RemoteError ''Connection error.'')),
      files_create = (\<lambda>h. Inl (RemoteError ''Connection error.'')),
      files_delete = (\<lambda>h. Inl (RemoteError ''Connection error.''))\<rparr>"

text \<open>
  A service that takes 500 seconds to answer a call, and fails. (The client's own limit
  on a request is 600 seconds.)
\<close>

definition slow_service :: service where
  "slow_service =
     \<lparr>latency = (\<lambda>h. 500),
      responses_create = (\<lambda>h. Inl (RemoteError ''Request timed out.'')),
      vector_stores_create = (\<lambda>h. Inl (RemoteError ''Request timed out.'')),
      vector_stores_list = (\<lambda>h. Inl (RemoteError ''Request timed out.'')),
      vector_stores_delete = (\<lambda>h. Inl (RemoteError ''Request timed out.'')),
      vector_stores_files_list = (\<lambda>h. Inl (RemoteError ''Request timed out.'')),
      vector_stores_files_create = (\<lambda>h. Inl (RemoteError ''Request timed out.'')),
      vector_stores_files_delete = (\<lambda>h. Inl (RemoteError ''Request timed out.'')),
      files_create = (\<lambda>h. Inl (RemoteError ''Request timed out.'')),
      files_delete = (\<lambda>h. Inl (RemoteError ''Request timed out.''))\<rparr>"

text \<open>
  A machine on which a pass of the loop takes no measurable time of its own and the
  operating system accepts a sleep of up to nine billion seconds.
\<close>

definition quick_machine :: machine where
  "quick_machine = \<lparr>pass_time = (\<lambda>h c. 0), sleep_max = 9000000000\<rparr>"

text \<open>
  Inputs of the text box: a domain, and a blank text made of a space, an em space
  (U+2003), a tab and a no-break space (U+00A0).
\<close>

definition domain_input :: unicode where
  "domain_input = ascii ''example.com''"

definition blank_input :: unicode where
  "blank_input = [0x20, 0x2003, 0x9, 0xA0]"

section \<open>Basic facts\<close>

lemma calls_emit: "calls (emit e w) = calls w"
  by (simp add: emit_def)

lemma ui_emit: "ui (emit e w) = ui w @ [e]"
  by (simp add: emit_def)

lemma session_emit: "session (emit e w) = session w"
  by (simp add: emit_def)

lemma clock_emit: "clock (emit e w) = clock w"
  by (simp add: emit_def)

lemma strip_empty_iff: "strip s = [] \<longleftrightarrow> list_all isspace s"
proof
  assume "strip s = []"
  then have a: "\<forall>x\<in>set (dropWhile isspace s). isspace x"
    by (simp add: strip_def dropWhile_eq_Nil_conv)
  have "dropWhile isspace s = []"
  proof (rule ccontr)
    assume ne: "dropWhile isspace s \<noteq> []"
    then have "\<not> isspace (hd (dropWhile isspace s))" by (rule hd_dropWhile)
    moreover have "hd (dropWhile isspace s) \<in> set (dropWhile isspace s)" using ne by simp
    ultimately show False using a by blast
  qed
  then show "list_all isspace s" by (simp add: dropWhile_eq_Nil_conv list_all_iff)
next
  assume "list_all isspace s"
  then have "\<forall>x\<in>set s. isspace x" by (simp add: list_all_iff)
  then show "strip s = []" by (auto simp: strip_def dest: set_dropWhileD)
qed

section \<open>The extraction on well-formed completions\<close>

lemma collect_annotations_encode:
  "list_all wf_annotation anns \<Longrightarrow>
   collect_annotations (map encode_annotation anns) cs
     = cs @ concat (map spec_citations_of_annotation anns)"
proof (induction anns arbitrary: cs)
  case Nil
  then show ?case by simp
next
  case (Cons a anns)
  then show ?case by (cases a) simp_all
qed

lemma content_step_encode:
  "wf_content c \<Longrightarrow>
   content_step (encode_content c) (out, cs)
     = Inr (out @ spec_text_of_content c, cs @ spec_citations_of_content c)"
  by (cases c) (simp_all add: content_step_def py_or_def collect_annotations_encode)

lemma content_loop_encode:
  "list_all wf_content cs \<Longrightarrow>
   content_loop (map encode_content cs) (out, cits)
     = Inr (out @ concat (map spec_text_of_content cs),
            cits @ concat (map spec_citations_of_content cs))"
  by (induction cs arbitrary: out cits) (simp_all add: content_step_encode)

lemma item_step_encode:
  "wf_item i \<Longrightarrow>
   item_step (encode_item i) (out, cits)
     = Inr (out @ spec_text_of_item i, cits @ spec_citations_of_item i)"
  by (cases i) (simp_all add: item_step_def py_or_def content_loop_encode)

lemma item_loop_encode:
  "list_all wf_item items \<Longrightarrow>
   item_loop (map encode_item items) (out, cits)
     = Inr (out @ concat (map spec_text_of_item items),
            cits @ concat (map spec_citations_of_item items))"
  by (induction items arbitrary: out cits) (simp_all add: item_step_encode)

text \<open>
  Claim C6. On every well-formed structured completion the extraction returns the texts
  of the text blocks of the message items, concatenated in order, and one citation
  record (file id and filename) for every file citation of those blocks; the traversal
  does not raise, so the fallback is not taken. In particular the completion with the
  one text block X and the one citation of file f1, a.pdf, yields the text X and that
  citation.
\<close>

theorem extract_output_well_formed:
  "wf_completion items \<Longrightarrow>
   extract_output str_of (encode_completion items) = (spec_text items, spec_citations items)"
  using item_loop_encode [of items "[]" "[]"]
  by (simp add: extract_output_def traverse_def encode_completion_def py_or_def
        wf_completion_def spec_text_def spec_citations_def)

theorem extract_output_well_formed_witness:
  "wf_completion [Message [OutputText ''X'' [FileCitation ''f1'' ''a.pdf'']]] \<and>
   extract_output sample_str
     (encode_completion [Message [OutputText ''X'' [FileCitation ''f1'' ''a.pdf'']]])
     = (''X'', [\<lparr>file_id = PStr ''f1'', filename = PStr ''a.pdf''\<rparr>])"
  using extract_output_well_formed
          [of "[Message [OutputText ''X'' [FileCitation ''f1'' ''a.pdf'']]]" sample_str]
  by (simp add: wf_completion_def spec_text_def spec_citations_def)

section \<open>The extraction when the traversal raises\<close>

lemma item_loop_append:
  "item_loop (xs @ ys) a = (case item_loop xs a of Inl r \<Rightarrow> Inl r | Inr a' \<Rightarrow> item_loop ys a')"
  by (induction xs arbitrary: a) (simp_all split: sum.splits)

lemma collect_annotations_extends: "\<exists>more. collect_annotations anns cs = cs @ more"
proof (induction anns arbitrary: cs)
  case Nil
  show ?case by simp
next
  case (Cons a anns)
  obtain cs' where step: "collect_annotations (a # anns) cs = collect_annotations anns cs'"
    and ext: "\<exists>m. cs' = cs @ m"
    by (cases "getattr_default a ''type'' PNone = PStr ''file_citation''") auto
  from Cons [of cs'] obtain m2 where "collect_annotations anns cs' = cs' @ m2" by blast
  with step ext show ?case by auto
qed

lemma content_step_extends:
  "content_step c (out, cits) = Inl (e, out', cits') \<Longrightarrow> \<exists>more. cits' = cits @ more"
  "content_step c (out, cits) = Inr (out', cits') \<Longrightarrow> \<exists>more. cits' = cits @ more"
  using collect_annotations_extends [of _ cits]
  by (auto simp: content_step_def split: if_splits sum.splits pyval.splits)

lemma content_loop_extends:
  "content_loop cs (out, cits) = Inl (e, out', cits') \<Longrightarrow> \<exists>more. cits' = cits @ more"
proof (induction cs arbitrary: out cits)
  case Nil
  then show ?case by simp
next
  case (Cons c cs)
  show ?case
  proof (cases "content_step c (out, cits)")
    case (Inl r)
    with Cons.prems have "content_step c (out, cits) = Inl (e, out', cits')" by simp
    then show ?thesis by (rule content_step_extends)
  next
    case (Inr a)
    obtain o1 c1 where a: "a = (o1, c1)" by (cases a)
    from Inr a obtain m1 where m1: "c1 = cits @ m1"
      using content_step_extends(2) by blast
    from Cons.prems Inr a have "content_loop cs (o1, c1) = Inl (e, out', cits')" by simp
    from Cons.IH [OF this] obtain m2 where "cits' = c1 @ m2" by blast
    with m1 show ?thesis by simp
  qed
qed

lemma item_step_extends:
  "item_step i (out, cits) = Inl (e, out', cits') \<Longrightarrow> \<exists>more. cits' = cits @ more"
  using content_loop_extends [of _ out cits e out' cits']
  by (auto simp: item_step_def split: if_splits sum.splits)

text \<open>
  Claim C2, as stated, fails: the handler of line 85 replaces the text and leaves the
  citation list as the traversal left it. At \<open>partial_response\<close> the traversal raises on
  the second message, after the citation of the first one was appended, and the
  extraction returns that citation with the stringified completion.
\<close>

theorem extract_output_fallback_counterexample:
  "isl (traverse partial_response) \<and>
   snd (extract_output sample_str partial_response)
     = [\<lparr>file_id = PStr ''f1'', filename = PStr ''a.pdf''\<rparr>]"
  by (simp add: partial_response_def traverse_def extract_output_def item_step_def
        content_step_def py_or_def)

text \<open>
  Claim C2, amended. Whenever the traversal raises, the extraction returns the
  stringified completion as the text, together with the citations collected before the
  raise; it returns a value in every case. The citation list is empty when the raise is
  at \<^verbatim>\<open>response.output\<close>; when well-formed items precede the item that raises, it
  starts with all their citations.
\<close>

theorem extract_output_fallback:
  "(traverse response = Inl (e, output_text, citations) \<longrightarrow>
      extract_output str_of response = (str_of response, citations)) \<and>
   (isl (getattr response ''output'') \<longrightarrow>
      extract_output str_of response = (str_of response, [])) \<and>
   (wf_completion items \<and> isl (item_step bad (spec_text items, spec_citations items)) \<longrightarrow>
      (\<exists>more. extract_output str_of (PObj [(''output'', PList (map encode_item items @ bad # rest))])
         = (str_of (PObj [(''output'', PList (map encode_item items @ bad # rest))]),
            spec_citations items @ more)))"
proof (intro conjI impI)
  assume "traverse response = Inl (e, output_text, citations)"
  then show "extract_output str_of response = (str_of response, citations)"
    by (simp add: extract_output_def)
next
  assume "isl (getattr response ''output'')"
  then show "extract_output str_of response = (str_of response, [])"
    by (auto simp: extract_output_def traverse_def isl_def)
next
  assume a: "wf_completion items \<and> isl (item_step bad (spec_text items, spec_citations items))"
  let ?r = "PObj [(''output'', PList (map encode_item items @ bad # rest))]"
  from a obtain e' out' cits'
    where bad: "item_step bad (spec_text items, spec_citations items) = Inl (e', out', cits')"
    by (auto simp: isl_def)
  from item_step_extends [OF bad] obtain more where more: "cits' = spec_citations items @ more"
    by blast
  have pre: "item_loop (map encode_item items) ([], []) = Inr (spec_text items, spec_citations items)"
    using a item_loop_encode [of items "[]" "[]"]
    by (simp add: wf_completion_def spec_text_def spec_citations_def)
  have "item_loop (map encode_item items @ bad # rest) ([], []) = Inl (e', out', cits')"
    by (simp add: item_loop_append pre bad)
  then have "traverse ?r = Inl (e', out', cits')"
    by (simp add: traverse_def py_or_def)
  then have "extract_output str_of ?r = (str_of ?r, cits')"
    by (simp add: extract_output_def)
  with more show "\<exists>more. extract_output str_of ?r = (str_of ?r, spec_citations items @ more)"
    by blast
qed

theorem extract_output_fallback_witness:
  "traverse partial_response
     = Inl (TypeError ''object is not iterable'', ''X'',
            [\<lparr>file_id = PStr ''f1'', filename = PStr ''a.pdf''\<rparr>]) \<and>
   extract_output sample_str partial_response
     = (sample_str partial_response, [\<lparr>file_id = PStr ''f1'', filename = PStr ''a.pdf''\<rparr>]) \<and>
   isl (getattr (PInt 3) ''output'') \<and>
   extract_output sample_str (PInt 3) = (sample_str (PInt 3), []) \<and>
   wf_completion [Message [OutputText ''X'' [FileCitation ''f1'' ''a.pdf'']]] \<and>
   isl (item_step (PObj [(''type'', PStr ''message''), (''content'', PInt 5)])
          (spec_text [Message [OutputText ''X'' [FileCitation ''f1'' ''a.pdf'']]],
           spec_citations [Message [OutputText ''X'' [FileCitation ''f1'' ''a.pdf'']]]))"
proof -
  have t: "traverse partial_response
     = Inl (TypeError ''object is not iterable'', ''X'',
            [\<lparr>file_id = PStr ''f1'', filename = PStr ''a.pdf''\<rparr>])"
    by (simp add: partial_response_def traverse_def item_step_def content_step_def py_or_def)
  have g: "isl (getattr (PInt 3) ''output'')" by simp
  have w: "wf_completion [Message [OutputText ''X'' [FileCitation ''f1'' ''a.pdf'']]]"
    by (simp add: wf_completion_def)
  have b: "isl (item_step (PObj [(''type'', PStr ''message''), (''content'', PInt 5)])
          (spec_text [Message [OutputText ''X'' [FileCitation ''f1'' ''a.pdf'']]],
           spec_citations [Message [OutputText ''X'' [FileCitation ''f1'' ''a.pdf'']]]))"
    by (simp add: item_step_def py_or_def)
  from extract_output_fallback
         [of partial_response "TypeError ''object is not iterable''" "''X''"
             "[\<lparr>file_id = PStr ''f1'', filename = PStr ''a.pdf''\<rparr>]" sample_str]
       extract_output_fallback [of "PInt 3" _ _ _ sample_str]
       t g w b
  show ?thesis by simp
qed

section \<open>The guards of the handlers\<close>

text \<open>
  Claim C10. On every empty or whitespace-only input (every code point one of those that
  \<^verbatim>\<open>str.strip\<close> removes), Find Program shows the input-required warning and calls
  nothing; the check comes first, so this holds in every session, also without a key and
  without an active vector store, where the warning is shown and not the error about the
  key.
\<close>

theorem find_program_blank_input:
  "list_all isspace user_text \<Longrightarrow>
   calls (find_program str_of svc user_text w) = calls w \<and>
   ui (find_program str_of svc user_text w)
     = ui w @ [Warning ''Please provide some input (domain, email, org name, etc.).'']"
  by (simp add: find_program_def strip_empty_iff calls_emit ui_emit)

theorem find_program_blank_input_witness:
  "list_all isspace blank_input \<and> \<not> client (session fresh_world) \<and>
   get_active_vector_store_id (session fresh_world) = None \<and>
   calls (find_program sample_str null_service blank_input fresh_world) = [] \<and>
   ui (find_program sample_str null_service blank_input fresh_world)
     = [Warning ''Please provide some input (domain, email, org name, etc.).'']"
  using find_program_blank_input [of blank_input sample_str null_service fresh_world]
  by (simp add: blank_input_def isspace_def fresh_world_def client_def
        get_active_vector_store_id_def)

lemma upload_no_client:
  "\<not> client (session w) \<Longrightarrow> \<exists>w'. upload m svc uploaded_files w = Some w' \<and> calls w' = calls w"
  by (simp add: upload_def calls_emit)

lemma strip_domain_input: "strip domain_input \<noteq> []"
  by (simp add: domain_input_def ascii_def strip_def isspace_def)

text \<open>
  Claim C4, as stated, fails: without a key, Find Program on an empty input shows the
  input-required warning, and Upload without an active vector store shows the error
  about the vector store; neither shows the error about the key.
\<close>

theorem no_credential_counterexample:
  "OPENAI_API_KEY (session fresh_world) = [] \<and>
   ui (find_program sample_str null_service [] fresh_world)
     = [Warning ''Please provide some input (domain, email, org name, etc.).''] \<and>
   upload quick_machine null_service [(''a.txt'', ''hello'')] fresh_world
     = Some (emit (Error ''No active vector store set. Create one or set an ID above.'') fresh_world)"
  by (simp add: fresh_world_def find_program_def strip_def emit_def upload_def
        get_active_vector_store_id_def)

text \<open>
  Claim C4, amended. Without a key, none of the three actions calls the remote service.
  Creating a vector store shows the error about the key; Find Program shows it when the
  input is not blank; Upload shows it when files were chosen and an active vector store
  is set. (The earlier guards of Find Program and Upload show their own messages.)
\<close>

theorem no_credential_no_remote_call:
  assumes "OPENAI_API_KEY (session w) = []"
  shows "calls (find_program str_of svc user_text w) = calls w \<and>
         (strip user_text \<noteq> [] \<longrightarrow>
            ui (find_program str_of svc user_text w)
              = ui w @ [Error ''OpenAI API key is not set. Please set it in the sidebar under Settings.'']) \<and>
         create_vector_store svc name w
           = emit (Error ''Set your OpenAI API key in Settings first.'') w \<and>
         (\<exists>w'. upload m svc uploaded_files w = Some w' \<and> calls w' = calls w) \<and>
         (uploaded_files \<noteq> [] \<and> truthy_opt (get_active_vector_store_id (session w)) \<longrightarrow>
            upload m svc uploaded_files w
              = Some (emit (Error ''Set your OpenAI API key in Settings first.'') w))"
proof -
  from assms have nc: "\<not> client (session w)" by (simp add: client_def)
  have 1: "calls (find_program str_of svc user_text w) = calls w"
    using nc by (simp add: find_program_def calls_emit)
  have 2: "strip user_text \<noteq> [] \<longrightarrow>
            ui (find_program str_of svc user_text w)
              = ui w @ [Error ''OpenAI API key is not set. Please set it in the sidebar under Settings.'']"
    using nc by (simp add: find_program_def ui_emit)
  have 3: "create_vector_store svc name w
           = emit (Error ''Set your OpenAI API key in Settings first.'') w"
    using assms by (simp add: create_vector_store_def)
  have 4: "\<exists>w'. upload m svc uploaded_files w = Some w' \<and> calls w' = calls w"
    using nc by (rule upload_no_client)
  have 5: "uploaded_files \<noteq> [] \<and> truthy_opt (get_active_vector_store_id (session w)) \<longrightarrow>
            upload m svc uploaded_files w
              = Some (emit (Error ''Set your OpenAI API key in Settings first.'') w)"
    using nc by (simp add: upload_def)
  from 1 2 3 4 5 show ?thesis by blast
qed

theorem no_credential_no_remote_call_witness:
  "OPENAI_API_KEY (session no_key_world) = [] \<and>
   strip domain_input \<noteq> [] \<and>
   [(''a.txt'', ''hello'')] \<noteq> [] \<and> truthy_opt (get_active_vector_store_id (session no_key_world)) \<and>
   calls (find_program sample_str null_service domain_input no_key_world) = [] \<and>
   ui (find_program sample_str null_service domain_input no_key_world)
     = [Error ''OpenAI API key is not set. Please set it in the sidebar under Settings.''] \<and>
   create_vector_store null_service ''knowledge_base'' no_key_world
     = emit (Error ''Set your OpenAI API key in Settings first.'') no_key_world \<and>
   upload quick_machine null_service [(''a.txt'', ''hello'')] no_key_world
     = Some (emit (Error ''Set your OpenAI API key in Settings first.'') no_key_world)"
  using no_credential_no_remote_call
          [of no_key_world sample_str null_service domain_input "''knowledge_base''"
              quick_machine "[(''a.txt'', ''hello'')]"]
        strip_domain_input
  by (simp add: no_key_world_def get_active_vector_store_id_def)

text \<open>
  Claim C5, as stated, fails twice: on a non-empty input without a key and without an
  active vector store, Find Program shows the error about the key; on the non-empty
  input of one space, with a key, it shows the input-required warning.
\<close>

theorem no_active_store_counterexample:
  "get_active_vector_store_id (session fresh_world) = None \<and>
   ui (find_program sample_str null_service domain_input fresh_world)
     = [Error ''OpenAI API key is not set. Please set it in the sidebar under Settings.''] \<and>
   get_active_vector_store_id (session keyed_world) = None \<and>
   ui (find_program sample_str null_service [0x20] keyed_world)
     = [Warning ''Please provide some input (domain, email, org name, etc.).'']"
  using strip_domain_input
  by (simp add: fresh_world_def keyed_world_def find_program_def strip_def isspace_def emit_def
        get_active_vector_store_id_def client_def)

text \<open>
  Claim C5, amended. When no active vector store is set (none, or the empty id), Find
  Program never calls the completion service, whatever the input; and when the input is
  not blank and a key is configured, it shows the error that no active vector store is
  set.
\<close>

theorem no_active_store_no_completion_call:
  assumes "\<not> truthy_opt (get_active_vector_store_id (session w))"
  shows "calls (find_program str_of svc user_text w) = calls w \<and>
         (strip user_text \<noteq> [] \<and> client (session w) \<longrightarrow>
            ui (find_program str_of svc user_text w)
              = ui w @ [Error ''No active vector store set. Create one or set an ID in the 'Manage Knowledge Base' section.''])"
  using assms by (simp add: find_program_def calls_emit ui_emit)

theorem no_active_store_no_completion_call_witness:
  "\<not> truthy_opt (get_active_vector_store_id (session keyed_world)) \<and>
   strip domain_input \<noteq> [] \<and> client (session keyed_world) \<and>
   calls (find_program sample_str null_service domain_input keyed_world) = [] \<and>
   ui (find_program sample_str null_service domain_input keyed_world)
     = [Error ''No active vector store set. Create one or set an ID in the 'Manage Knowledge Base' section.'']"
  using no_active_store_no_completion_call [of keyed_world sample_str null_service domain_input]
        strip_domain_input
  by (simp add: keyed_world_def get_active_vector_store_id_def client_def)

section \<open>Delete Store\<close>

lemma calls_perform: "calls (perform svc c w) = calls w @ [c]"
  by (simp add: perform_def)

lemma ui_perform: "ui (perform svc c w) = ui w"
  by (simp add: perform_def)

lemma session_perform: "session (perform svc c w) = session w"
  by (simp add: perform_def)

lemma delete_files_session: "session (snd (delete_files svc sid refs n w)) = session w"
  by (induction refs arbitrary: n w)
     (simp_all add: Let_def session_perform session_emit split: option.splits sum.splits)

lemma delete_files_calls:
  "\<forall>r\<in>set refs. truthy_opt (fid_of r) \<Longrightarrow>
   calls (snd (delete_files svc sid refs n w))
     = calls w @ concat (map (\<lambda>r. [VectorStoreFilesDelete sid (fid_str r), FilesDelete (fid_str r)]) refs)"
proof (induction refs arbitrary: n w)
  case Nil
  show ?case by simp
next
  case (Cons r refs)
  from Cons.prems obtain fid where fid: "fid_of r = Some fid" "fid \<noteq> []"
    by (cases "fid_of r") auto
  from Cons.prems have rest: "\<forall>r\<in>set refs. truthy_opt (fid_of r)" by simp
  show ?case
    using fid Cons.IH [OF rest]
    by (simp add: Let_def fid_str_def calls_perform calls_emit split: sum.splits)
qed

lemma delete_files_ui:
  "\<exists>ws. ui (snd (delete_files svc sid refs n w)) = ui w @ ws \<and> (\<forall>x\<in>set ws. \<exists>m. x = Warning m)"
proof (induction refs arbitrary: n w)
  case Nil
  show ?case by simp
next
  case (Cons r refs)
  show ?case
  proof (cases "fid_of r")
    case None
    with Cons.IH [of n w] show ?thesis by simp
  next
    case (Some fid)
    show ?thesis
    proof (cases "fid = []")
      case True
      with Some Cons.IH [of n w] show ?thesis by simp
    next
      case False
      let ?w3 = "perform svc (FilesDelete fid) (perform svc (VectorStoreFilesDelete sid fid) w)"
      show ?thesis
      proof (cases "files_delete svc (calls ?w3)")
        case (Inl e)
        let ?w4 = "emit (Warning (''Failed to delete file '' @ fid @ '': '' @ exn_message e)) ?w3"
        from Cons.IH [of n ?w4] obtain ws
          where ws: "ui (snd (delete_files svc sid refs n ?w4)) = ui ?w4 @ ws"
                    "\<forall>x\<in>set ws. \<exists>m. x = Warning m" by blast
        have "ui (snd (delete_files svc sid (r # refs) n w))
                = ui w @ (Warning (''Failed to delete file '' @ fid @ '': '' @ exn_message e) # ws)"
          using Some False Inl ws(1)
          by (simp add: Let_def ui_perform ui_emit split: sum.splits)
        moreover have "\<forall>x\<in>set (Warning (''Failed to delete file '' @ fid @ '': '' @ exn_message e) # ws).
                         \<exists>m. x = Warning m"
          using ws(2) by simp
        ultimately show ?thesis by blast
      next
        case (Inr u)
        from Cons.IH [of "n + 1" ?w3] obtain ws
          where ws: "ui (snd (delete_files svc sid refs (n + 1) ?w3)) = ui ?w3 @ ws"
                    "\<forall>x\<in>set ws. \<exists>m. x = Warning m" by blast
        have "ui (snd (delete_files svc sid (r # refs) n w)) = ui w @ ws"
          using Some False Inr ws(1)
          by (simp add: Let_def ui_perform split: sum.splits)
        with ws(2) show ?thesis by blast
      qed
    qed
  qed
qed


lemma delete_store_unfold:
  assumes c: "client (session w)"
    and df: "delete_files svc sid
               (case vector_stores_files_list svc (calls w @ [VectorStoreFilesList (Some sid)]) of
                  Inl e \<Rightarrow> [] | Inr data \<Rightarrow> data) 0
               (perform svc (VectorStoreFilesList (Some sid)) w) = (n, w2)"
  shows "delete_store svc sid w =
     (case vector_stores_delete svc (calls w2 @ [VectorStoresDelete sid]) of
        Inl e \<Rightarrow>
          emit (Error (''Failed to delete vector store '' @ sid @ '': '' @ exn_message e))
            (perform svc (VectorStoresDelete sid) w2)
      | Inr u \<Rightarrow>
          emit Rerun
            (emit (Success (''Deleted vector store: '' @ sid @ '' (and '' @ str_nat n @ '' related files)''))
               (if get_active_vector_store_id (session w2) = Some sid
                then (perform svc (VectorStoresDelete sid) w2)
                       \<lparr>session := (session w2)\<lparr>ACTIVE_VECTOR_STORE_ID := None\<rparr>\<rparr>
                else perform svc (VectorStoresDelete sid) w2)))"
  using c df
  by (simp add: delete_store_def Let_def calls_perform session_perform split: sum.splits)

lemma delete_store_calls:
  assumes c: "client (session w)"
    and refs: "refs = (case vector_stores_files_list svc (calls w @ [VectorStoreFilesList (Some sid)]) of
                         Inl e \<Rightarrow> [] | Inr data \<Rightarrow> data)"
    and ids: "\<forall>r\<in>set refs. truthy_opt (fid_of r)"
  shows "calls (delete_store svc sid w)
           = calls w @ [VectorStoreFilesList (Some sid)]
               @ concat (map (\<lambda>r. [VectorStoreFilesDelete sid (fid_str r), FilesDelete (fid_str r)]) refs)
               @ [VectorStoresDelete sid]"
proof -
  let ?w1 = "perform svc (VectorStoreFilesList (Some sid)) w"
  obtain n w2 where df: "delete_files svc sid refs 0 ?w1 = (n, w2)"
    by (cases "delete_files svc sid refs 0 ?w1")
  from delete_files_calls [OF ids, of svc sid 0 ?w1] df
  have c2: "calls w2 = calls w @ [VectorStoreFilesList (Some sid)]
              @ concat (map (\<lambda>r. [VectorStoreFilesDelete sid (fid_str r), FilesDelete (fid_str r)]) refs)"
    by (simp add: calls_perform)
  from df refs have df': "delete_files svc sid
               (case vector_stores_files_list svc (calls w @ [VectorStoreFilesList (Some sid)]) of
                  Inl e \<Rightarrow> [] | Inr data \<Rightarrow> data) 0 ?w1 = (n, w2)" by simp
  show ?thesis
    unfolding delete_store_unfold [OF c df']
    by (simp add: c2 calls_emit calls_perform split: sum.splits)
qed

lemma delete_store_ui:
  assumes c: "client (session w)"
  shows "\<exists>ws n. (\<forall>x\<in>set ws. \<exists>m. x = Warning m) \<and>
           ui (delete_store svc sid w) = ui w @ ws @
             (case vector_stores_delete svc (calls (delete_store svc sid w)) of
                Inl e \<Rightarrow> [Error (''Failed to delete vector store '' @ sid @ '': '' @ exn_message e)]
              | Inr u \<Rightarrow> [Success (''Deleted vector store: '' @ sid @ '' (and '' @ str_nat n @ '' related files)''),
                          Rerun])"
proof -
  let ?w1 = "perform svc (VectorStoreFilesList (Some sid)) w"
  let ?refs = "case vector_stores_files_list svc (calls w @ [VectorStoreFilesList (Some sid)]) of
                  Inl e \<Rightarrow> [] | Inr data \<Rightarrow> data"
  obtain n w2 where df: "delete_files svc sid ?refs 0 ?w1 = (n, w2)"
    by (cases "delete_files svc sid ?refs 0 ?w1")
  from delete_files_ui [of svc sid ?refs 0 ?w1] df obtain ws
    where ws: "ui w2 = ui w @ ws" "\<forall>x\<in>set ws. \<exists>m. x = Warning m"
    by (auto simp: ui_perform)
  have cs: "calls (delete_store svc sid w) = calls w2 @ [VectorStoresDelete sid]"
    unfolding delete_store_unfold [OF c df]
    by (simp add: calls_emit calls_perform split: sum.splits)
  have "ui (delete_store svc sid w) = ui w @ ws @
             (case vector_stores_delete svc (calls (delete_store svc sid w)) of
                Inl e \<Rightarrow> [Error (''Failed to delete vector store '' @ sid @ '': '' @ exn_message e)]
              | Inr u \<Rightarrow> [Success (''Deleted vector store: '' @ sid @ '' (and '' @ str_nat n @ '' related files)''),
                          Rerun])"
    unfolding cs unfolding delete_store_unfold [OF c df]
    by (simp add: ui_emit ui_perform ws(1) split: sum.splits)
  with ws(2) show ?thesis by blast
qed

lemma delete_store_session:
  assumes c: "client (session w)"
    and ok: "vector_stores_delete svc (calls (delete_store svc sid w)) = Inr u"
  shows "session (delete_store svc sid w)
           = (if get_active_vector_store_id (session w) = Some sid
              then (session w)\<lparr>ACTIVE_VECTOR_STORE_ID := None\<rparr>
              else session w)"
proof -
  let ?w1 = "perform svc (VectorStoreFilesList (Some sid)) w"
  let ?refs = "case vector_stores_files_list svc (calls w @ [VectorStoreFilesList (Some sid)]) of
                  Inl e \<Rightarrow> [] | Inr data \<Rightarrow> data"
  obtain n w2 where df: "delete_files svc sid ?refs 0 ?w1 = (n, w2)"
    by (cases "delete_files svc sid ?refs 0 ?w1")
  from delete_files_session [of svc sid ?refs 0 ?w1] df
  have s2: "session w2 = session w" by (simp add: session_perform)
  have cs: "calls (delete_store svc sid w) = calls w2 @ [VectorStoresDelete sid]"
    unfolding delete_store_unfold [OF c df]
    by (simp add: calls_emit calls_perform split: sum.splits)
  from ok cs have ok': "vector_stores_delete svc (calls w2 @ [VectorStoresDelete sid]) = Inr u"
    by simp
  show ?thesis
    unfolding delete_store_unfold [OF c df]
    by (simp add: ok' session_emit session_perform s2)
qed

text \<open>
  Claim C3. With a client, Delete Store first lists the files of the store and then, for
  each of the listed files in turn, attempts the detach and the file deletion, and last
  the deletion of the store: the sequence of calls is the same whatever the service
  answers to any of them, so a failure on one file prevents neither the attempts on the
  later files nor the final call (an enumeration that fails counts as no files). The
  handler reports a failure, the error message of line 210, exactly when that final call
  fails; failures on files only add warnings.
\<close>

theorem delete_store_best_effort:
  assumes "client (session w)"
    and "refs = (case vector_stores_files_list svc (calls w @ [VectorStoreFilesList (Some sid)]) of
                   Inl e \<Rightarrow> [] | Inr data \<Rightarrow> data)"
    and "\<forall>r\<in>set refs. truthy_opt (fid_of r)"
  shows "calls (delete_store svc sid w)
           = calls w @ [VectorStoreFilesList (Some sid)]
               @ concat (map (\<lambda>r. [VectorStoreFilesDelete sid (fid_str r), FilesDelete (fid_str r)]) refs)
               @ [VectorStoresDelete sid] \<and>
         ((\<exists>m. Error m \<in> set (drop (length (ui w)) (ui (delete_store svc sid w))))
            \<longleftrightarrow> isl (vector_stores_delete svc (calls (delete_store svc sid w))))"
proof
  show "calls (delete_store svc sid w)
           = calls w @ [VectorStoreFilesList (Some sid)]
               @ concat (map (\<lambda>r. [VectorStoreFilesDelete sid (fid_str r), FilesDelete (fid_str r)]) refs)
               @ [VectorStoresDelete sid]"
    using assms by (rule delete_store_calls)
next
  from delete_store_ui [OF assms(1), of svc sid] obtain ws n
    where ws: "\<forall>x\<in>set ws. \<exists>m. x = Warning m"
      and u: "ui (delete_store svc sid w) = ui w @ ws @
             (case vector_stores_delete svc (calls (delete_store svc sid w)) of
                Inl e \<Rightarrow> [Error (''Failed to delete vector store '' @ sid @ '': '' @ exn_message e)]
              | Inr u \<Rightarrow> [Success (''Deleted vector store: '' @ sid @ '' (and '' @ str_nat n @ '' related files)''),
                          Rerun])"
    by blast
  show "(\<exists>m. Error m \<in> set (drop (length (ui w)) (ui (delete_store svc sid w))))
            \<longleftrightarrow> isl (vector_stores_delete svc (calls (delete_store svc sid w)))"
  proof (cases "vector_stores_delete svc (calls (delete_store svc sid w))")
    case (Inl e)
    with u show ?thesis by auto
  next
    case (Inr a)
    with u ws show ?thesis by auto
  qed
qed

lemma two_file_run:
  "delete_store two_file_service ''vs_1'' ready_world
     = ready_world
         \<lparr>session := (session ready_world)\<lparr>ACTIVE_VECTOR_STORE_ID := None\<rparr>,
          calls := [VectorStoreFilesList (Some ''vs_1''),
                    VectorStoreFilesDelete ''vs_1'' ''file_a'', FilesDelete ''file_a'',
                    VectorStoreFilesDelete ''vs_1'' ''file_b'', FilesDelete ''file_b'',
                    VectorStoresDelete ''vs_1''],
          ui := [Warning ''Failed to delete file file_a: No such File object: file_a'',
                 Success ''Deleted vector store: vs_1 (and 1 related files)'',
                 Rerun]\<rparr>"
  by (simp add: delete_store_def two_file_service_def ready_world_def client_def perform_def
        emit_def fid_of_def Let_def get_active_vector_store_id_def digit_def)

theorem delete_store_best_effort_witness:
  "client (session ready_world) \<and>
   truthy_opt (fid_of \<lparr>ref_file_id = None, ref_id = Some ''file_a'', ref_status = Some ''completed''\<rparr>) \<and>
   truthy_opt (fid_of \<lparr>ref_file_id = None, ref_id = Some ''file_b'', ref_status = Some ''completed''\<rparr>) \<and>
   files_delete two_file_service
     [VectorStoreFilesList (Some ''vs_1''), VectorStoreFilesDelete ''vs_1'' ''file_a'',
      FilesDelete ''file_a''] = Inl (RemoteError ''No such File object: file_a'') \<and>
   calls (delete_store two_file_service ''vs_1'' ready_world)
     = [VectorStoreFilesList (Some ''vs_1''),
        VectorStoreFilesDelete ''vs_1'' ''file_a'', FilesDelete ''file_a'',
        VectorStoreFilesDelete ''vs_1'' ''file_b'', FilesDelete ''file_b'',
        VectorStoresDelete ''vs_1''] \<and>
   \<not> isl (vector_stores_delete two_file_service (calls (delete_store two_file_service ''vs_1'' ready_world))) \<and>
   \<not> (\<exists>m. Error m \<in> set (drop (length (ui ready_world))
                              (ui (delete_store two_file_service ''vs_1'' ready_world))))"
proof -
  have c: "client (session ready_world)" by (simp add: ready_world_def client_def)
  have r: "[\<lparr>ref_file_id = None, ref_id = Some ''file_a'', ref_status = Some ''completed''\<rparr>,
            \<lparr>ref_file_id = None, ref_id = Some ''file_b'', ref_status = Some ''completed''\<rparr>]
           = (case vector_stores_files_list two_file_service
                     (calls ready_world @ [VectorStoreFilesList (Some ''vs_1'')]) of
                Inl e \<Rightarrow> [] | Inr data \<Rightarrow> data)"
    by (simp add: two_file_service_def)
  have i: "\<forall>r\<in>set [\<lparr>ref_file_id = None, ref_id = Some ''file_a'', ref_status = Some ''completed''\<rparr>,
             \<lparr>ref_file_id = None, ref_id = Some ''file_b'', ref_status = Some ''completed''\<rparr>].
      truthy_opt (fid_of r)"
    by (simp add: fid_of_def)
  have f: "files_delete two_file_service
     [VectorStoreFilesList (Some ''vs_1''), VectorStoreFilesDelete ''vs_1'' ''file_a'',
      FilesDelete ''file_a''] = Inl (RemoteError ''No such File object: file_a'')"
    by (simp add: two_file_service_def)
  have d: "\<not> isl (vector_stores_delete two_file_service
                    (calls (delete_store two_file_service ''vs_1'' ready_world)))"
    by (simp add: two_file_service_def)
  from delete_store_best_effort [OF c r i] c i f d
  show ?thesis by (simp add: fid_str_def fid_of_def ready_world_def)
qed

text \<open>
  Claim C9. After a successful deletion of a store, the active vector store id of the
  session is not the id of the deleted store: when it was, it is reset to \<open>None\<close>.
\<close>

theorem delete_store_clears_active:
  assumes "client (session w)"
    and "vector_stores_delete svc (calls (delete_store svc sid w)) = Inr u"
  shows "get_active_vector_store_id (session (delete_store svc sid w)) \<noteq> Some sid \<and>
         (get_active_vector_store_id (session w) = Some sid \<longrightarrow>
            get_active_vector_store_id (session (delete_store svc sid w)) = None)"
  using delete_store_session [OF assms]
  by (simp add: get_active_vector_store_id_def)

theorem delete_store_clears_active_witness:
  "client (session ready_world) \<and>
   vector_stores_delete two_file_service (calls (delete_store two_file_service ''vs_1'' ready_world))
     = Inr () \<and>
   get_active_vector_store_id (session ready_world) = Some ''vs_1'' \<and>
   get_active_vector_store_id (session (delete_store two_file_service ''vs_1'' ready_world)) = None"
proof -
  have c: "client (session ready_world)" by (simp add: ready_world_def client_def)
  have d: "vector_stores_delete two_file_service
             (calls (delete_store two_file_service ''vs_1'' ready_world)) = Inr ()"
    by (simp add: two_file_service_def)
  have a: "get_active_vector_store_id (session ready_world) = Some ''vs_1''"
    by (simp add: ready_world_def get_active_vector_store_id_def)
  from delete_store_clears_active [OF c d] c d a show ?thesis by simp
qed

section \<open>Listing the vector stores, over reruns\<close>

text \<open>
  Claim C7, amended. When the listing raises an error whose message contains
  \<^verbatim>\<open>Vector store not found\<close>, that run of the script shows no error, requests one rerun
  and ends, and the listing is attempted again in the next run, whatever the number of
  runs before it, so the refresh is repeated for as long as that error persists. Any
  other error of the listing is shown as an error message, and the list is empty.
\<close>

theorem list_vector_stores_on_error:
  assumes "client (session w)"
    and "vector_stores_list svc (calls w @ [VectorStoresList]) = Inl e"
  shows "(contains (exn_message e) ''Vector store not found'' \<longrightarrow>
            list_vector_stores svc w
              = (None, emit Rerun (emit (Info ''Refreshing stores...'') (perform svc VectorStoresList w))) \<and>
            listing_runs (Suc n) svc w
              = listing_runs n svc
                  (emit Rerun (emit (Info ''Refreshing stores...'') (perform svc VectorStoresList w)))) \<and>
         (\<not> contains (exn_message e) ''Vector store not found'' \<longrightarrow>
            list_vector_stores svc w
              = (Some [], emit (Error (''Failed to list vector stores: '' @ exn_message e))
                            (perform svc VectorStoresList w)))"
  using assms
  by (simp add: list_vector_stores_def client_def Let_def calls_perform)

theorem list_vector_stores_on_error_witness:
  "client (session keyed_world) \<and>
   vector_stores_list flaky_service (calls keyed_world @ [VectorStoresList])
     = Inl (RemoteError ''Error code: 404 - Vector store not found'') \<and>
   contains ''Error code: 404 - Vector store not found'' ''Vector store not found'' \<and>
   list_vector_stores flaky_service keyed_world
     = (None, keyed_world\<lparr>calls := [VectorStoresList], ui := [Info ''Refreshing stores...'', Rerun]\<rparr>) \<and>
   vector_stores_list null_service (calls keyed_world @ [VectorStoresList])
     = Inl (RemoteError ''Connection error.'') \<and>
   \<not> contains ''Connection error.'' ''Vector store not found'' \<and>
   list_vector_stores null_service keyed_world
     = (Some [], keyed_world\<lparr>calls := [VectorStoresList],
                              ui := [Error ''Failed to list vector stores: Connection error.'']\<rparr>)"
proof -
  have c: "client (session keyed_world)" by (simp add: keyed_world_def client_def)
  have f: "vector_stores_list flaky_service (calls keyed_world @ [VectorStoresList])
     = Inl (RemoteError ''Error code: 404 - Vector store not found'')"
    by (simp add: flaky_service_def keyed_world_def)
  have n: "vector_stores_list null_service (calls keyed_world @ [VectorStoresList])
     = Inl (RemoteError ''Connection error.'')"
    by (simp add: null_service_def)
  have k1: "contains ''Error code: 404 - Vector store not found'' ''Vector store not found''"
    by simp
  have k2: "\<not> contains ''Connection error.'' ''Vector store not found''"
    by simp
  from list_vector_stores_on_error [OF c f, of 0] list_vector_stores_on_error [OF c n, of 0]
       c f n k1 k2
  show ?thesis
    by (simp add: keyed_world_def perform_def emit_def flaky_service_def null_service_def)
qed

text \<open>
  Claim C7, as stated, fails: nothing limits the automatic refresh to one. With a
  service that answers two listings in a row with the 404, the script reruns twice and
  lists three times; after the first automatic refresh the stores are still not listed.
\<close>

theorem list_vector_stores_retry_counterexample:
  "map_option (ui \<circ> snd) (listing_runs (Suc (Suc (Suc 0))) flaky_service keyed_world)
     = Some [Info ''Refreshing stores...'', Rerun, Info ''Refreshing stores...'', Rerun] \<and>
   map_option (calls \<circ> snd) (listing_runs (Suc (Suc (Suc 0))) flaky_service keyed_world)
     = Some [VectorStoresList, VectorStoresList, VectorStoresList] \<and>
   listing_runs (Suc (Suc 0)) flaky_service keyed_world = None"
  by (simp add: list_vector_stores_def flaky_service_def keyed_world_def client_def perform_def
        emit_def Let_def)

section \<open>The indexing poll\<close>

lemma scan_listing_find:
  "scan_listing fid data =
     (case find (is_terminal_entry fid) data of
        None \<Rightarrow> None
      | Some f \<Rightarrow> Some (if entry_status f = ''completed'' \<or> entry_status f = ''finished''
                        then ''completed'' else entry_status f))"
  by (induction data) (auto simp: is_terminal_entry_def Let_def)

lemma sleep_accepted:
  "sleep_accepts m p \<Longrightarrow> sleep m p w = Inr (w\<lparr>clock := clock w + p\<rparr>)"
  by (auto simp: sleep_accepts_def sleep_def time_max_def)

lemma sleep_after_accepted:
  "sleep_accepts m p \<Longrightarrow> sleep_after m outcome p w = Inr (w\<lparr>clock := clock w + p\<rparr>)"
  by (cases outcome) (simp_all add: sleep_accepted)

lemma poll_loop_timeout:
  "\<not> clock w - start < T \<Longrightarrow> poll_loop m svc fid T p start w = Some (Inr ''timeout'', w)"
  by (subst poll_loop.simps) simp

lemma poll_loop_returned:
  "clock w - start < T \<Longrightarrow> poll_once svc fid (begin_pass m w) = (Returned status, w1) \<Longrightarrow>
   poll_loop m svc fid T p start w = Some (Inr status, w1)"
  by (subst poll_loop.simps) simp

lemma poll_loop_retry:
  assumes "clock w - start < T" and "poll_once svc fid (begin_pass m w) = (outcome, w1)"
    and "\<forall>status. outcome \<noteq> Returned status" and "sleep_accepts m p"
  shows "poll_loop m svc fid T p start w = poll_loop m svc fid T p start (w1\<lparr>clock := clock w1 + p\<rparr>)"
proof -
  have s: "sleep_after m outcome p w1 = Inr (w1\<lparr>clock := clock w1 + p\<rparr>)"
    using assms(4) by (rule sleep_after_accepted)
  show ?thesis
    using assms(1-3) s by (subst poll_loop.simps) (cases outcome; simp)
qed

lemma session_begin_pass: "session (begin_pass m w) = session w"
  by (simp add: begin_pass_def)

lemma poll_once_client:
  "client (session w) \<Longrightarrow>
   poll_once svc fid (begin_pass m w) =
     (case listing_result m svc w of
        Inl e \<Rightarrow> (Raised e, after_listing m svc w)
      | Inr data \<Rightarrow>
          (case scan_listing fid data of
             Some status \<Rightarrow> (Returned status, after_listing m svc w)
           | None \<Rightarrow> (Not_terminal, after_listing m svc w)))"
  unfolding poll_once_def listing_result_def after_listing_def Let_def session_begin_pass
  by simp

lemma poll_once_no_client:
  "\<not> client (session w) \<Longrightarrow>
   poll_once svc fid (begin_pass m w)
     = (Raised (AttributeError ''object has no attribute vector_stores''), begin_pass m w)"
  by (simp add: poll_once_def session_begin_pass)

lemma poll_once_bounds:
  assumes lat: "\<forall>h. 0 \<le> latency svc h"
    and po: "poll_once svc fid w0 = (outcome, w1)"
  shows "clock w0 \<le> clock w1" and "length (calls w1) \<le> length (calls w0) + 1"
    and "(\<forall>h. latency svc h \<le> L) \<Longrightarrow> clock w1 \<le> clock w0 + L"
proof -
  have "w1 = w0 \<or> w1 = perform svc (VectorStoreFilesList (get_active_vector_store_id (session w0))) w0"
    using po by (auto simp: poll_once_def Let_def split: if_splits sum.splits option.splits)
  moreover have "(\<forall>h. latency svc h \<le> L) \<longrightarrow> 0 \<le> L"
    using lat by (meson order_trans)
  ultimately have a: "clock w0 \<le> clock w1 \<and> length (calls w1) \<le> length (calls w0) + 1"
    and b: "(\<forall>h. latency svc h \<le> L) \<longrightarrow> clock w1 \<le> clock w0 + L"
    using lat by (auto simp: perform_def)
  from a show "clock w0 \<le> clock w1" and "length (calls w1) \<le> length (calls w0) + 1" by simp_all
  from b show "(\<forall>h. latency svc h \<le> L) \<Longrightarrow> clock w1 \<le> clock w0 + L" by simp
qed

lemma scan_listing_status:
  "scan_listing fid data = Some status \<Longrightarrow> status \<in> {''completed'', ''failed'', ''error''}"
  by (induction data) (auto simp: Let_def split: if_splits)

lemma poll_once_status:
  "poll_once svc fid w0 = (Returned status, w1) \<Longrightarrow>
   status \<in> {''completed'', ''failed'', ''error''}"
  by (auto simp: poll_once_def Let_def split: if_splits sum.splits option.splits
           dest: scan_listing_status)

lemma poll_loop_returns:
  assumes lat: "\<forall>h. 0 \<le> latency svc h"
    and el: "\<forall>h c. e \<le> pass_time m h c"
    and e0: "0 \<le> e"
    and acc: "sleep_accepts m p"
    and adv: "0 < p + e"
  shows "start + T - clock w \<le> real n * (p + e) \<Longrightarrow>
         \<exists>status w'. poll_loop m svc fid T p start w = Some (Inr status, w') \<and>
           status \<in> {''completed'', ''failed'', ''error'', ''timeout''} \<and>
           length (calls w') \<le> length (calls w) + n \<and>
           clock w \<le> clock w'"
proof (induction n arbitrary: w)
  case 0
  then have "\<not> clock w - start < T" by simp
  then have "poll_loop m svc fid T p start w = Some (Inr ''timeout'', w)"
    by (rule poll_loop_timeout)
  then show ?case by simp
next
  case (Suc n)
  show ?case
  proof (cases "clock w - start < T")
    case False
    then have "poll_loop m svc fid T p start w = Some (Inr ''timeout'', w)"
      by (rule poll_loop_timeout)
    then show ?thesis by simp
  next
    case True
    from acc have p0: "0 \<le> p" by (simp add: sleep_accepts_def)
    obtain outcome w1 where po: "poll_once svc fid (begin_pass m w) = (outcome, w1)"
      by (cases "poll_once svc fid (begin_pass m w)")
    have bp: "clock w + e \<le> clock (begin_pass m w)" "calls (begin_pass m w) = calls w"
      using el by (simp_all add: begin_pass_def)
    note b = poll_once_bounds(1,2) [OF lat po]
    show ?thesis
    proof (cases "\<exists>status. outcome = Returned status")
      case True
      then obtain status where st: "outcome = Returned status" by blast
      with po \<open>clock w - start < T\<close>
      have r: "poll_loop m svc fid T p start w = Some (Inr status, w1)"
        by (simp add: poll_loop_returned)
      from po st have "status \<in> {''completed'', ''failed'', ''error''}"
        using poll_once_status by blast
      moreover have "clock w \<le> clock w1" using b(1) bp(1) e0 by linarith
      moreover have "length (calls w1) \<le> length (calls w) + Suc n" using b(2) bp(2) by simp
      ultimately show ?thesis using r by auto
    next
      case False
      let ?w2 = "w1\<lparr>clock := clock w1 + p\<rparr>"
      from False have nr: "\<forall>status. outcome \<noteq> Returned status" by blast
      have r: "poll_loop m svc fid T p start w = poll_loop m svc fid T p start ?w2"
        using \<open>clock w - start < T\<close> po nr acc by (rule poll_loop_retry)
      have adv2: "clock w + (p + e) \<le> clock ?w2" using b(1) bp(1) by simp
      have "start + T - clock ?w2 \<le> real n * (p + e)"
        using Suc.prems adv2 by (simp add: algebra_simps)
      from Suc.IH [OF this] obtain status w'
        where ih: "poll_loop m svc fid T p start ?w2 = Some (Inr status, w')"
          "status \<in> {''completed'', ''failed'', ''error'', ''timeout''}"
          "length (calls w') \<le> length (calls ?w2) + n"
          "clock ?w2 \<le> clock w'"
        by blast
      have "length (calls w') \<le> length (calls w) + Suc n"
        using ih(3) b(2) bp(2) by simp
      moreover have "clock w \<le> clock w'"
        using ih(4) adv2 adv by linarith
      ultimately show ?thesis using r ih(1,2) by auto
    qed
  qed
qed

lemma poll_loop_overrun:
  assumes lat: "\<forall>h. 0 \<le> latency svc h \<and> latency svc h \<le> L"
    and el: "\<forall>h c. 0 \<le> pass_time m h c \<and> pass_time m h c \<le> E"
    and acc: "sleep_accepts m p"
    and adv: "0 < p"
  shows "start + T - clock w \<le> real n * p \<Longrightarrow>
         poll_loop m svc fid T p start w = Some (r, w') \<Longrightarrow>
         w' = w \<or> clock w' < start + T + E + L + p"
proof (induction n arbitrary: w)
  case 0
  then have "\<not> clock w - start < T" by simp
  then have "poll_loop m svc fid T p start w = Some (Inr ''timeout'', w)"
    by (rule poll_loop_timeout)
  with "0.prems"(2) show ?case by simp
next
  case (Suc n)
  show ?case
  proof (cases "clock w - start < T")
    case False
    then have "poll_loop m svc fid T p start w = Some (Inr ''timeout'', w)"
      by (rule poll_loop_timeout)
    with Suc.prems(2) show ?thesis by simp
  next
    case True
    from lat have lat0: "\<forall>h. 0 \<le> latency svc h" and latL: "\<forall>h. latency svc h \<le> L" by simp_all
    obtain outcome w1 where po: "poll_once svc fid (begin_pass m w) = (outcome, w1)"
      by (cases "poll_once svc fid (begin_pass m w)")
    have bp: "clock w \<le> clock (begin_pass m w)" "clock (begin_pass m w) \<le> clock w + E"
      using el by (simp_all add: begin_pass_def)
    have b1: "clock (begin_pass m w) \<le> clock w1"
      using poll_once_bounds(1) [OF lat0 po] .
    have b3: "clock w1 \<le> clock (begin_pass m w) + L"
      using poll_once_bounds(3) [OF lat0 po latL] .
    have c1: "clock w1 < start + T + E + L"
      using b3 bp(2) True by linarith
    show ?thesis
    proof (cases "\<exists>status. outcome = Returned status")
      case True
      then obtain status where st: "outcome = Returned status" by blast
      with po \<open>clock w - start < T\<close>
      have "poll_loop m svc fid T p start w = Some (Inr status, w1)"
        by (simp add: poll_loop_returned)
      with Suc.prems(2) have "w' = w1" by simp
      with c1 adv show ?thesis by simp
    next
      case False
      let ?w2 = "w1\<lparr>clock := clock w1 + p\<rparr>"
      from False have nr: "\<forall>status. outcome \<noteq> Returned status" by blast
      have r: "poll_loop m svc fid T p start w = poll_loop m svc fid T p start ?w2"
        using \<open>clock w - start < T\<close> po nr acc by (rule poll_loop_retry)
      have adv2: "clock w + p \<le> clock ?w2" using b1 bp(1) by simp
      have m: "start + T - clock ?w2 \<le> real n * p"
        using Suc.prems(1) adv2 by (simp add: algebra_simps)
      from Suc.prems(2) r have "poll_loop m svc fid T p start ?w2 = Some (r, w')" by simp
      from Suc.IH [OF m this] have "w' = ?w2 \<or> clock w' < start + T + E + L + p" .
      moreover have "clock ?w2 < start + T + E + L + p" using c1 by simp
      ultimately show ?thesis by auto
    qed
  qed
qed

text \<open>
  Claim C1. For every file id, every timeout and every poll interval that
  \<^verbatim>\<open>time.sleep\<close> accepts (the program passes the default, one second), the function is
  its loop started at the current time, and each pass of the loop does what the claim
  says. When the timeout has elapsed the loop returns \<open>timeout\<close>, calling nothing.
  Otherwise it lists the files once: when the first entry for the file in a terminal
  state says completed or finished it returns \<open>completed\<close>; when that entry says failed
  or error it returns that status as it is; and when the listing raises or has no such
  entry (or there is no client), it sleeps one poll interval and goes round the loop
  again. With a positive interval, on a clock that does not run backwards, the function
  returns, and what it returns is one of these four statuses.
\<close>

theorem wait_until_file_indexed_steps:
  "wait_until_file_indexed m svc fid T p w = poll_loop m svc fid T p (clock w) w \<and>
   (\<not> clock w - start < T \<longrightarrow>
      poll_loop m svc fid T p start w = Some (Inr ''timeout'', w)) \<and>
   (clock w - start < T \<and> client (session w) \<and> listing_result m svc w = Inr data \<and>
    find (is_terminal_entry fid) data = Some f \<and>
    (entry_status f = ''completed'' \<or> entry_status f = ''finished'') \<longrightarrow>
      poll_loop m svc fid T p start w = Some (Inr ''completed'', after_listing m svc w)) \<and>
   (clock w - start < T \<and> client (session w) \<and> listing_result m svc w = Inr data \<and>
    find (is_terminal_entry fid) data = Some f \<and>
    (entry_status f = ''failed'' \<or> entry_status f = ''error'') \<longrightarrow>
      poll_loop m svc fid T p start w = Some (Inr (entry_status f), after_listing m svc w)) \<and>
   (clock w - start < T \<and> client (session w) \<and> sleep_accepts m p \<and>
    (isl (listing_result m svc w) \<or>
     (listing_result m svc w = Inr data \<and> find (is_terminal_entry fid) data = None)) \<longrightarrow>
      poll_loop m svc fid T p start w
        = poll_loop m svc fid T p start
            ((after_listing m svc w)\<lparr>clock := clock (after_listing m svc w) + p\<rparr>)) \<and>
   (clock w - start < T \<and> \<not> client (session w) \<and> sleep_accepts m p \<longrightarrow>
      poll_loop m svc fid T p start w
        = poll_loop m svc fid T p start ((begin_pass m w)\<lparr>clock := clock (begin_pass m w) + p\<rparr>)) \<and>
   (sleep_accepts m p \<and> 0 < p \<and> (\<forall>h. 0 \<le> latency svc h) \<and> (\<forall>h c. 0 \<le> pass_time m h c) \<longrightarrow>
      (\<exists>status w'. wait_until_file_indexed m svc fid T p w = Some (Inr status, w') \<and>
         status \<in> {''completed'', ''failed'', ''error'', ''timeout''}))"
proof (intro conjI impI)
  show "wait_until_file_indexed m svc fid T p w = poll_loop m svc fid T p (clock w) w"
    by (simp add: wait_until_file_indexed_def)
next
  assume "\<not> clock w - start < T"
  then show "poll_loop m svc fid T p start w = Some (Inr ''timeout'', w)"
    by (rule poll_loop_timeout)
next
  assume a: "clock w - start < T \<and> client (session w) \<and> listing_result m svc w = Inr data \<and>
    find (is_terminal_entry fid) data = Some f \<and>
    (entry_status f = ''completed'' \<or> entry_status f = ''finished'')"
  then have "poll_once svc fid (begin_pass m w) = (Returned ''completed'', after_listing m svc w)"
    by (auto simp: poll_once_client scan_listing_find)
  with a show "poll_loop m svc fid T p start w = Some (Inr ''completed'', after_listing m svc w)"
    by (simp add: poll_loop_returned)
next
  assume a: "clock w - start < T \<and> client (session w) \<and> listing_result m svc w = Inr data \<and>
    find (is_terminal_entry fid) data = Some f \<and>
    (entry_status f = ''failed'' \<or> entry_status f = ''error'')"
  then have "poll_once svc fid (begin_pass m w) = (Returned (entry_status f), after_listing m svc w)"
    by (auto simp: poll_once_client scan_listing_find)
  with a show "poll_loop m svc fid T p start w = Some (Inr (entry_status f), after_listing m svc w)"
    by (simp add: poll_loop_returned)
next
  assume a: "clock w - start < T \<and> client (session w) \<and> sleep_accepts m p \<and>
    (isl (listing_result m svc w) \<or>
     (listing_result m svc w = Inr data \<and> find (is_terminal_entry fid) data = None))"
  then have "\<exists>outcome. poll_once svc fid (begin_pass m w) = (outcome, after_listing m svc w) \<and>
               (\<forall>status. outcome \<noteq> Returned status)"
    by (auto simp: poll_once_client scan_listing_find isl_def)
  then obtain outcome where "poll_once svc fid (begin_pass m w) = (outcome, after_listing m svc w)"
    and "\<forall>status. outcome \<noteq> Returned status" by blast
  with a show "poll_loop m svc fid T p start w
        = poll_loop m svc fid T p start
            ((after_listing m svc w)\<lparr>clock := clock (after_listing m svc w) + p\<rparr>)"
    by (simp add: poll_loop_retry)
next
  assume a: "clock w - start < T \<and> \<not> client (session w) \<and> sleep_accepts m p"
  then have "poll_once svc fid (begin_pass m w)
               = (Raised (AttributeError ''object has no attribute vector_stores''), begin_pass m w)"
    by (simp add: poll_once_no_client)
  with a show "poll_loop m svc fid T p start w
        = poll_loop m svc fid T p start ((begin_pass m w)\<lparr>clock := clock (begin_pass m w) + p\<rparr>)"
    by (simp add: poll_loop_retry)
next
  assume a: "sleep_accepts m p \<and> 0 < p \<and> (\<forall>h. 0 \<le> latency svc h) \<and> (\<forall>h c. 0 \<le> pass_time m h c)"
  let ?n = "nat \<lceil>T / p\<rceil>"
  from a have p: "0 < p" by simp
  have "T / p \<le> real ?n" by (rule real_nat_ceiling_ge)
  then have "T \<le> real ?n * p" using p by (simp add: pos_divide_le_eq)
  then have "clock w + T - clock w \<le> real ?n * (p + 0)" using p by simp
  moreover have "0 < p + (0::real)" using p by simp
  ultimately have "\<exists>status w'. poll_loop m svc fid T p (clock w) w = Some (Inr status, w') \<and>
           status \<in> {''completed'', ''failed'', ''error'', ''timeout''} \<and>
           length (calls w') \<le> length (calls w) + ?n \<and> clock w \<le> clock w'"
    using a poll_loop_returns [where svc = svc and m = m and e = 0 and p = p and start = "clock w"
                                 and T = T and w = w and n = ?n and fid = fid]
    by blast
  then show "\<exists>status w'. wait_until_file_indexed m svc fid T p w = Some (Inr status, w') \<and>
         status \<in> {''completed'', ''failed'', ''error'', ''timeout''}"
    by (auto simp: wait_until_file_indexed_def)
qed


lemmas eval_defs = ready_world_def fresh_world_def after_listing_def listing_result_def perform_def
  begin_pass_def quick_machine_def sleep_accepts_def time_max_def
  indexing_service_def failing_service_def null_service_def is_terminal_entry_def
  entry_id_def entry_status_def client_def get_active_vector_store_id_def

theorem wait_until_file_indexed_steps_witness:
  "sleep_accepts quick_machine 1 \<and>
   (\<forall>h. 0 \<le> latency indexing_service h) \<and>
   (\<forall>h c. 0 \<le> pass_time quick_machine h c) \<and>
   wait_until_file_indexed quick_machine indexing_service ''file_a'' 90 1 ready_world
     = Some (Inr ''completed'',
             ready_world\<lparr>calls := [VectorStoreFilesList (Some ''vs_1''),
                                   VectorStoreFilesList (Some ''vs_1''),
                                   VectorStoreFilesList (Some ''vs_1'')],
                          clock := 11 / 4\<rparr>) \<and>
   wait_until_file_indexed quick_machine failing_service ''file_a'' 90 1 ready_world
     = Some (Inr ''failed'',
             ready_world\<lparr>calls := [VectorStoreFilesList (Some ''vs_1'')], clock := 1 / 4\<rparr>) \<and>
   wait_until_file_indexed quick_machine null_service ''file_a'' 2 1 ready_world
     = Some (Inr ''timeout'',
             ready_world\<lparr>calls := [VectorStoreFilesList (Some ''vs_1''),
                                   VectorStoreFilesList (Some ''vs_1'')],
                          clock := 2\<rparr>) \<and>
   wait_until_file_indexed quick_machine null_service ''file_a'' 1 1 fresh_world
     = Some (Inr ''timeout'', fresh_world\<lparr>clock := 1\<rparr>)"
proof -
  note S = wait_until_file_indexed_steps
  let ?L = "VectorStoreFilesList (Some ''vs_1'')"
  let ?busy = "\<lparr>ref_file_id = None, ref_id = Some ''file_a'', ref_status = Some ''in_progress''\<rparr>"
  let ?done = "\<lparr>ref_file_id = None, ref_id = Some ''file_a'', ref_status = Some ''finished''\<rparr>"
  let ?bad = "\<lparr>ref_file_id = None, ref_id = Some ''file_a'', ref_status = Some ''failed''\<rparr>"
  have h1: "sleep_accepts quick_machine 1"
    by (simp add: sleep_accepts_def quick_machine_def time_max_def)
  have h2: "\<forall>h. 0 \<le> latency indexing_service h" by (simp add: indexing_service_def)
  have h3: "\<forall>h c. 0 \<le> pass_time quick_machine h c" by (simp add: quick_machine_def)
  have a0: "wait_until_file_indexed quick_machine indexing_service ''file_a'' 90 1 ready_world
              = poll_loop quick_machine indexing_service ''file_a'' 90 1 0 ready_world"
    using S [where m = quick_machine and svc = indexing_service and fid = "''file_a''" and T = 90
                and p = 1 and w = ready_world]
    by (simp add: ready_world_def)
  have a1: "poll_loop quick_machine indexing_service ''file_a'' 90 1 0 ready_world
              = poll_loop quick_machine indexing_service ''file_a'' 90 1 0
                  (ready_world\<lparr>calls := [?L], clock := 5 / 4\<rparr>)"
    using S [where m = quick_machine and svc = indexing_service and fid = "''file_a''" and T = 90
                and p = 1 and start = 0 and w = ready_world and data = "[?busy]"]
    by (simp add: eval_defs)
  have a2: "poll_loop quick_machine indexing_service ''file_a'' 90 1 0
              (ready_world\<lparr>calls := [?L], clock := 5 / 4\<rparr>)
              = poll_loop quick_machine indexing_service ''file_a'' 90 1 0
                  (ready_world\<lparr>calls := [?L, ?L], clock := 10 / 4\<rparr>)"
    using S [where m = quick_machine and svc = indexing_service and fid = "''file_a''" and T = 90
                and p = 1 and start = 0 and w = "ready_world\<lparr>calls := [?L], clock := 5 / 4\<rparr>"
                and data = "[?busy]"]
    by (simp add: eval_defs)
  have a3: "poll_loop quick_machine indexing_service ''file_a'' 90 1 0
              (ready_world\<lparr>calls := [?L, ?L], clock := 10 / 4\<rparr>)
              = Some (Inr ''completed'', ready_world\<lparr>calls := [?L, ?L, ?L], clock := 11 / 4\<rparr>)"
    using S [where m = quick_machine and svc = indexing_service and fid = "''file_a''" and T = 90
                and p = 1 and start = 0 and w = "ready_world\<lparr>calls := [?L, ?L], clock := 10 / 4\<rparr>"
                and data = "[?done]" and f = ?done]
    by (simp add: eval_defs)
  have b0: "wait_until_file_indexed quick_machine failing_service ''file_a'' 90 1 ready_world
              = poll_loop quick_machine failing_service ''file_a'' 90 1 0 ready_world"
    using S [where m = quick_machine and svc = failing_service and fid = "''file_a''" and T = 90
                and p = 1 and w = ready_world]
    by (simp add: ready_world_def)
  have b1: "poll_loop quick_machine failing_service ''file_a'' 90 1 0 ready_world
              = Some (Inr ''failed'', ready_world\<lparr>calls := [?L], clock := 1 / 4\<rparr>)"
    using S [where m = quick_machine and svc = failing_service and fid = "''file_a''" and T = 90
                and p = 1 and start = 0 and w = ready_world and data = "[?bad]" and f = ?bad]
    by (simp add: eval_defs)
  have c0: "wait_until_file_indexed quick_machine null_service ''file_a'' 2 1 ready_world
              = poll_loop quick_machine null_service ''file_a'' 2 1 0 ready_world"
    using S [where m = quick_machine and svc = null_service and fid = "''file_a''" and T = 2
                and p = 1 and w = ready_world]
    by (simp add: ready_world_def)
  have c1: "poll_loop quick_machine null_service ''file_a'' 2 1 0 ready_world
              = poll_loop quick_machine null_service ''file_a'' 2 1 0
                  (ready_world\<lparr>calls := [?L], clock := 1\<rparr>)"
    using S [where m = quick_machine and svc = null_service and fid = "''file_a''" and T = 2
                and p = 1 and start = 0 and w = ready_world]
    by (simp add: eval_defs)
  have c2: "poll_loop quick_machine null_service ''file_a'' 2 1 0
              (ready_world\<lparr>calls := [?L], clock := 1\<rparr>)
              = poll_loop quick_machine null_service ''file_a'' 2 1 0
                  (ready_world\<lparr>calls := [?L, ?L], clock := 2\<rparr>)"
    using S [where m = quick_machine and svc = null_service and fid = "''file_a''" and T = 2
                and p = 1 and start = 0 and w = "ready_world\<lparr>calls := [?L], clock := 1\<rparr>"]
    by (simp add: eval_defs)
  have c3: "poll_loop quick_machine null_service ''file_a'' 2 1 0
              (ready_world\<lparr>calls := [?L, ?L], clock := 2\<rparr>)
              = Some (Inr ''timeout'', ready_world\<lparr>calls := [?L, ?L], clock := 2\<rparr>)"
    using S [where m = quick_machine and svc = null_service and fid = "''file_a''" and T = 2
                and p = 1 and start = 0 and w = "ready_world\<lparr>calls := [?L, ?L], clock := 2\<rparr>"]
    by (simp add: eval_defs)
  have d0: "wait_until_file_indexed quick_machine null_service ''file_a'' 1 1 fresh_world
              = poll_loop quick_machine null_service ''file_a'' 1 1 0 fresh_world"
    using S [where m = quick_machine and svc = null_service and fid = "''file_a''" and T = 1
                and p = 1 and w = fresh_world]
    by (simp add: fresh_world_def)
  have d1: "poll_loop quick_machine null_service ''file_a'' 1 1 0 fresh_world
              = poll_loop quick_machine null_service ''file_a'' 1 1 0 (fresh_world\<lparr>clock := 1\<rparr>)"
    using S [where m = quick_machine and svc = null_service and fid = "''file_a''" and T = 1
                and p = 1 and start = 0 and w = fresh_world]
    by (simp add: eval_defs)
  have d2: "poll_loop quick_machine null_service ''file_a'' 1 1 0 (fresh_world\<lparr>clock := 1\<rparr>)
              = Some (Inr ''timeout'', fresh_world\<lparr>clock := 1\<rparr>)"
    using S [where m = quick_machine and svc = null_service and fid = "''file_a''" and T = 1
                and p = 1 and start = 0 and w = "fresh_world\<lparr>clock := 1\<rparr>"]
    by (simp add: eval_defs)
  show ?thesis
    using h1 h2 h3 by (simp only: a0 a1 a2 a3 b0 b1 c0 c1 c2 c3 d0 d1 d2 simp_thms)
qed

text \<open>
  Claim C8, as stated, fails: the budget is tested before a pass only (line 258), so the
  wait lasts longer than its budget by the pass that is under way. With a listing call
  that takes 500 seconds, the wait of the upload handler, whose budget is 90 seconds,
  returns after 501 seconds.
\<close>

theorem wait_until_file_indexed_overrun_counterexample:
  "wait_until_file_indexed quick_machine slow_service ''file_a'' 90 default_poll_interval ready_world
     = Some (Inr ''timeout'',
             ready_world\<lparr>calls := [VectorStoreFilesList (Some ''vs_1'')], clock := 501\<rparr>)"
  unfolding wait_until_file_indexed_def
  apply (subst poll_loop.simps)
  apply (simp add: poll_once_def slow_service_def quick_machine_def ready_world_def client_def
        perform_def sleep_def begin_pass_def time_max_def default_poll_interval_def
        get_active_vector_store_id_def)
  apply (subst poll_loop.simps)
  apply simp
  done


text \<open>
  Claim C8, amended. The wait of the upload handler (line 306: a budget of 90 seconds, the
  default interval of one second) always returns, with one of the four statuses, whatever
  the service answers, on a clock that does not run backwards and a machine that can
  sleep one second. It polls at most 90 times and overruns the budget by less than one
  pass: when a call takes at most \<open>L\<close> seconds and the interpreter at most \<open>E\<close> seconds
  for a pass, it returns less than \<open>90 + E + L + 1\<close> seconds after it was called.
\<close>

theorem wait_until_file_indexed_bounded:
  assumes "\<forall>h. 0 \<le> latency svc h \<and> latency svc h \<le> L"
    and "\<forall>h c. 0 \<le> pass_time m h c \<and> pass_time m h c \<le> E"
    and "sleep_accepts m default_poll_interval"
  shows "\<exists>status w'. wait_until_file_indexed m svc fid 90 default_poll_interval w = Some (Inr status, w') \<and>
           status \<in> {''completed'', ''failed'', ''error'', ''timeout''} \<and>
           length (calls w') \<le> length (calls w) + 90 \<and>
           clock w \<le> clock w' \<and>
           clock w' - clock w < 90 + E + L + 1"
proof -
  have acc: "sleep_accepts m 1" using assms(3) by (simp add: default_poll_interval_def)
  have lat0: "\<forall>h. 0 \<le> latency svc h" using assms(1) by simp
  have el0: "\<forall>h c. 0 \<le> pass_time m h c" using assms(2) by simp
  have n: "clock w + 90 - clock w \<le> real 90 * (1 + 0)" by simp
  have n': "clock w + 90 - clock w \<le> real 90 * 1" by simp
  from poll_loop_returns [OF lat0 el0 _ acc _ n, of fid] obtain status w'
    where r: "poll_loop m svc fid 90 1 (clock w) w = Some (Inr status, w')"
      "status \<in> {''completed'', ''failed'', ''error'', ''timeout''}"
      "length (calls w') \<le> length (calls w) + 90"
      "clock w \<le> clock w'"
    by auto
  from poll_loop_overrun [OF assms(1) assms(2) acc _ n' r(1)]
  have o: "w' = w \<or> clock w' < clock w + 90 + E + L + 1" by simp
  have "0 \<le> L" using assms(1) by (meson order_trans)
  moreover have "0 \<le> E" using assms(2) by (meson order_trans)
  ultimately have "clock w' - clock w < 90 + E + L + 1" using o by auto
  with r show ?thesis
    by (simp add: wait_until_file_indexed_def default_poll_interval_def)
qed

theorem wait_until_file_indexed_bounded_witness:
  "(\<forall>h. 0 \<le> latency slow_service h \<and> latency slow_service h \<le> 500) \<and>
   (\<forall>h c. 0 \<le> pass_time quick_machine h c \<and> pass_time quick_machine h c \<le> 0) \<and>
   sleep_accepts quick_machine default_poll_interval \<and>
   (\<exists>status w'. wait_until_file_indexed quick_machine slow_service ''file_a'' 90 default_poll_interval
                   ready_world = Some (Inr status, w') \<and>
      status \<in> {''completed'', ''failed'', ''error'', ''timeout''} \<and>
      length (calls w') \<le> length (calls ready_world) + 90 \<and>
      clock ready_world \<le> clock w' \<and>
      clock w' - clock ready_world < 90 + 0 + 500 + 1)"
proof -
  have l: "\<forall>h. 0 \<le> latency slow_service h \<and> latency slow_service h \<le> 500"
    by (simp add: slow_service_def)
  have e: "\<forall>h c. 0 \<le> pass_time quick_machine h c \<and> pass_time quick_machine h c \<le> 0"
    by (simp add: quick_machine_def)
  have a: "sleep_accepts quick_machine default_poll_interval"
    by (simp add: sleep_accepts_def quick_machine_def default_poll_interval_def time_max_def)
  from wait_until_file_indexed_bounded [OF l e a, of "''file_a''" ready_world] l e a
  show ?thesis by simp
qed

end
